theory Spec2Isabelle
  imports Main
begin

section \<open>Token expiry strings (src/utils/time.utils.ts)\<close>

text \<open>
  Strings are lists of 8-bit characters. The expiry parser computes a number from an
  arbitrary run of digits, so its numbers are modelled as what they are in JavaScript,
  IEEE 754 doubles: the value of the digits is rounded to the nearest double (ties to the
  even significand, infinity beyond the largest double), and so is the product with the
  multiplier. All values that arise are non-negative integers or \<open>Infinity\<close>. The
  timestamps, lifetimes and counters of the rest of the development are unbounded naturals
  and integers, which agree with doubles up to \<open>2^53\<close>.
\<close>

datatype number =
    Finite nat  \<comment> \<open>a double whose value is this non-negative integer\<close>
  | Infinity

fun ulp :: "nat \<Rightarrow> nat" where
  \<comment> \<open>the spacing of the doubles around \<open>n\<close>: 1 below \<open>2^53\<close>, doubling with every further bit\<close>
  "ulp n = (if n < 2 ^ 53 then 1 else 2 * ulp (n div 2))"

declare ulp.simps [simp del]

definition roundToDouble :: "nat \<Rightarrow> number" where
  \<comment> \<open>the double nearest to the integer \<open>n\<close>: 53 significant bits, ties to even,
      \<open>Infinity\<close> from \<open>2^1024 - 2^970\<close> on\<close>
  "roundToDouble n =
     (let u = ulp n; q = n div u; r = n mod u;
          m = (if 2 * r < u then q else if u < 2 * r then q + 1 else if even q then q else q + 1)
      in if 2 ^ 1024 \<le> m * u then Infinity else Finite (m * u))"

definition numberTimes :: "number \<Rightarrow> nat \<Rightarrow> number" where
  \<comment> \<open>the operator \<open>*\<close> on a parsed value and a multiplier, which is a positive integer
      below \<open>2^53\<close>\<close>
  "numberTimes x m = (case x of Finite v \<Rightarrow> roundToDouble (v * m) | Infinity \<Rightarrow> Infinity)"

definition DEFAULT_TOKEN_EXPIRY_SECONDS :: nat where
  "DEFAULT_TOKEN_EXPIRY_SECONDS = 7 * 24 * 60 * 60"

definition isDigit :: "char \<Rightarrow> bool" where
  \<comment> \<open>the regular expression class \<open>\d\<close>: the ten ASCII digits\<close>
  "isDigit c = (c \<in> set ''0123456789'')"

definition digitValue :: "char \<Rightarrow> nat" where
  "digitValue c = of_char c - 48"

definition decimalValue :: "string \<Rightarrow> nat" where
  \<comment> \<open>the integer that a string of digits denotes\<close>
  "decimalValue ds = foldl (\<lambda>acc c. 10 * acc + digitValue c) 0 ds"

definition parseInt10 :: "string \<Rightarrow> number" where
  \<comment> \<open>\<open>parseInt(s, 10)\<close> on a non-empty string of digits: the double nearest to the
      integer the digits denote\<close>
  "parseInt10 ds = roundToDouble (decimalValue ds)"

definition toLowerCaseChar :: "char \<Rightarrow> char" where
  \<comment> \<open>\<open>toLowerCase\<close> on the ASCII letters, the only ones the callers compare against\<close>
  "toLowerCaseChar c =
     (case map_of (zip ''ABCDEFGHIJKLMNOPQRSTUVWXYZ'' ''abcdefghijklmnopqrstuvwxyz'') c of
        Some l \<Rightarrow> l
      | None \<Rightarrow> c)"

definition toLowerCase :: "string \<Rightarrow> string" where
  "toLowerCase s = map toLowerCaseChar s"

definition isUnitLetter :: "char \<Rightarrow> bool" where
  \<comment> \<open>the class \<open>[smhdw]\<close> under the flag \<open>i\<close>\<close>
  "isUnitLetter c = (c \<in> set ''smhdwSMHDW'')"

definition expiryRegexExec :: "string \<Rightarrow> (string \<times> string) option" where
  \<comment> \<open>\<open>/^(\d+)([smhdw])$/i.exec(expiry)\<close>: the two capture groups, or \<open>None\<close> for
      \<open>null\<close>. The greedy \<open>\d+\<close> takes the longest run of leading digits; giving digits
      back cannot help, since the next character must be a unit letter.\<close>
  "expiryRegexExec expiry =
     (let g1 = takeWhile isDigit expiry; rest = dropWhile isDigit expiry
      in case rest of
           [u] \<Rightarrow> if g1 \<noteq> [] \<and> isUnitLetter u then Some (g1, [u]) else None
         | _ \<Rightarrow> None)"

definition unitMultipliers :: "string \<rightharpoonup> nat" where
  "unitMultipliers =
     map_of [(''s'', 1), (''m'', 60), (''h'', 60 * 60), (''d'', 60 * 60 * 24),
             (''w'', 60 * 60 * 24 * 7)]"

definition parseExpiryToSeconds :: "string \<Rightarrow> number" where
  "parseExpiryToSeconds expiry =
     (case expiryRegexExec expiry of
        None \<Rightarrow> Finite DEFAULT_TOKEN_EXPIRY_SECONDS
      | Some (g1, g2) \<Rightarrow>
          (let val = parseInt10 g1; unit = toLowerCase g2
           in numberTimes val (case unitMultipliers unit of
                                 Some m \<Rightarrow> m
                               | None \<Rightarrow> DEFAULT_TOKEN_EXPIRY_SECONDS)))"

section \<open>Exceptions and the HTTP status they surface as\<close>

datatype exn =
    UnauthorizedException string
  | BadRequestException string
  | NotFoundException string
  | Error string string
    \<comment> \<open>any other thrown error, with its \<open>name\<close> and its \<open>message\<close>: the JWT library's
        \<open>TokenExpiredError\<close> and \<open>JsonWebTokenError\<close>, a Redis client error, a \<open>TypeError\<close>\<close>

fun errName :: "exn \<Rightarrow> string" where
  "errName (UnauthorizedException m) = ''UnauthorizedException''"
| "errName (BadRequestException m) = ''BadRequestException''"
| "errName (NotFoundException m) = ''NotFoundException''"
| "errName (Error n m) = n"

fun getStatus :: "exn \<Rightarrow> nat" where
  \<comment> \<open>\<open>HttpException.getStatus()\<close>; the response interceptor answers 500 for any other error\<close>
  "getStatus (UnauthorizedException m) = 401"
| "getStatus (BadRequestException m) = 400"
| "getStatus (NotFoundException m) = 404"
| "getStatus (Error n m) = 500"

section \<open>The revocation store (src/shared/security/token-blacklist.service.ts)\<close>

text \<open>
  The Redis client: the keys it holds, each with the time to live and the value given to
  \<open>setEx\<close>, and which reads and writes throw (an unreachable or failing server).
  Logger calls have no effect on any result and are left out throughout.
\<close>

record redis_client =
  store :: "string \<rightharpoonup> (int \<times> string)"
  getThrows :: "string \<Rightarrow> bool"
  setExThrows :: "string \<Rightarrow> bool"

definition redis_get :: "redis_client \<Rightarrow> string \<Rightarrow> exn + string option" where
  "redis_get r key =
     (if getThrows r key then Inl (Error ''Error'' ''Redis read failed'')
      else Inr (map_option snd (store r key)))"

definition redis_setEx :: "redis_client \<Rightarrow> string \<Rightarrow> int \<Rightarrow> string \<Rightarrow> exn + redis_client" where
  "redis_setEx r key seconds v =
     (if setExThrows r key then Inl (Error ''Error'' ''Redis write failed'')
      else Inr (r\<lparr>store := (store r)(key \<mapsto> (seconds, v))\<rparr>))"

definition blacklistToken :: "redis_client \<Rightarrow> string \<Rightarrow> int \<Rightarrow> exn + redis_client" where
  "blacklistToken r token expiresInSeconds =
     (case redis_setEx r (''blacklist:'' @ token) expiresInSeconds ''1'' of
        Inr r' \<Rightarrow> Inr r'
      | Inl error \<Rightarrow> Inl error)"

definition isTokenBlacklisted :: "redis_client \<Rightarrow> string \<Rightarrow> exn + bool" where
  "isTokenBlacklisted r token =
     (case redis_get r (''blacklist:'' @ token) of
        Inr result \<Rightarrow> Inr (result \<noteq> None)
      | Inl error \<Rightarrow> Inr False)"

definition isUserBlacklisted :: "redis_client \<Rightarrow> string \<Rightarrow> exn + bool" where
  "isUserBlacklisted r userId =
     (case redis_get r (''blacklist:user:'' @ userId) of
        Inr result \<Rightarrow> Inr (result \<noteq> None)
      | Inl error \<Rightarrow> Inr False)"

definition isAdminBlacklisted :: "redis_client \<Rightarrow> string \<Rightarrow> exn + bool" where
  "isAdminBlacklisted r adminId =
     (case redis_get r (''blacklist:admin:'' @ adminId) of
        Inr result \<Rightarrow> Inr (result \<noteq> None)
      | Inl error \<Rightarrow> Inr False)"

section \<open>Collaborators and stored records\<close>

record jwt_payload =
  sub :: "string option"
  payload_email :: string
  payload_role :: string
  exp :: "int option"

record user =
  user_id :: string
  user_email :: string
  user_password :: "string option"
  user_firstName :: string
  user_lastName :: string
  user_role :: string
  user_status :: string
  user_isDeleted :: bool
  user_emailVerified :: bool

record admin =
  admin_id :: string
  admin_email :: string
  admin_password :: string
  admin_firstName :: string
  admin_lastName :: string
  admin_role :: string
  admin_isDeleted :: bool
  admin_isSuspended :: bool

record password_reset =
  reset_code :: string
  reset_expiresAt :: int
  reset_attempts :: nat
  reset_verifiedAt :: "int option"

record email_verification =
  verification_code :: string
  verification_expiresAt :: int
  verification_attempts :: nat

record email_job =
  job_recipient :: string
  job_subject :: string
  job_template :: string
  job_context :: "(string \<times> string) list"

text \<open>
  What the services are configured with and call into: the configuration values, the JWT
  service (\<open>verify\<close> and \<open>verifyAsync\<close> return the payload or throw, \<open>decode\<close> returns the
  payload or \<open>null\<close>), bcrypt, the base64 decoder of \<open>Buffer\<close>, the clock (\<open>Date.now()\<close>,
  in milliseconds) and the random number the call draws.
\<close>

record deps =
  JWT_SECRET :: string
  JWT_REFRESH_SECRET :: string
  JWT_EXPIRY_TIME :: string
  JWT_REFRESH_EXPIRY_TIME :: string
  BASIC_AUTH_ENABLED :: string
  IS_DEVELOPMENT :: bool
  FRONTEND_URL :: string
  jwtVerify :: "string \<Rightarrow> string \<Rightarrow> exn + jwt_payload"
  jwtDecode :: "string \<Rightarrow> jwt_payload option"
  jwtSign :: "string \<times> string \<times> string \<Rightarrow> string \<Rightarrow> string \<Rightarrow> string"
  jwtSignReset :: "string \<Rightarrow> string \<Rightarrow> string \<Rightarrow> string"
  bcryptCompare :: "string \<Rightarrow> string \<Rightarrow> bool"
  base64ToAscii :: "string \<Rightarrow> string"
  dateNow :: int
  dateLocale :: string
  randomInt :: "nat \<Rightarrow> nat \<Rightarrow> nat"

text \<open>
  The state the services read and write: the Redis client, the tables behind the Prisma
  client (users and admins as rows, the two code tables keyed by their unique
  \<open>(email, type)\<close>) and the queue of email jobs. Prisma calls are taken not to fail.
\<close>

record world =
  redis :: redis_client
  users :: "user list"
  admins :: "admin list"
  passwordReset :: "(string \<times> string) \<rightharpoonup> password_reset"
  emailVerification :: "(string \<times> string) \<rightharpoonup> email_verification"
  emailQueue :: "email_job list"
  emailQueueThrows :: bool

definition user_findUnique_id :: "world \<Rightarrow> string \<Rightarrow> user option" where
  "user_findUnique_id w i = find (\<lambda>u. user_id u = i) (users w)"

definition user_findUnique_email :: "world \<Rightarrow> string \<Rightarrow> user option" where
  "user_findUnique_email w e = find (\<lambda>u. user_email u = e) (users w)"

definition admin_findUnique_id :: "world \<Rightarrow> string \<Rightarrow> admin option" where
  "admin_findUnique_id w i = find (\<lambda>a. admin_id a = i) (admins w)"

definition admin_findUnique_email :: "world \<Rightarrow> string \<Rightarrow> admin option" where
  "admin_findUnique_email w e = find (\<lambda>a. admin_email a = e) (admins w)"

section \<open>The guards (src/shared/auth/auth.guard.ts, admin-auth.guard.ts)\<close>

fun split :: "char \<Rightarrow> string \<Rightarrow> string list" where
  \<comment> \<open>\<open>s.split(sep)\<close> for a one-character separator: one more piece than separators\<close>
  "split sep [] = [[]]"
| "split sep (c # cs) =
     (if c = sep then [] # split sep cs
      else (case split sep cs of
              p # ps \<Rightarrow> (c # p) # ps
            | [] \<Rightarrow> [[c]]))"

definition at :: "'a list \<Rightarrow> nat \<Rightarrow> 'a option" where
  \<comment> \<open>array destructuring: the element, or \<open>None\<close> for \<open>undefined\<close>\<close>
  "at xs i = (if i < length xs then Some (xs ! i) else None)"

definition falsy :: "string option \<Rightarrow> bool" where
  \<comment> \<open>\<open>!v\<close> for a string that may be \<open>undefined\<close>\<close>
  "falsy v = (case v of None \<Rightarrow> True | Some s \<Rightarrow> s = [])"

text \<open>
  Each guard returns, besides its outcome, the calls it made to its collaborators, in
  order. On success the outcome is the \<open>{id, role}\<close> attached to the request.
\<close>

datatype call =
    IsTokenBlacklisted string
  | VerifyAsync string string
  | IsUserBlacklisted string
  | IsAdminBlacklisted string
  | UserFindUniqueId string
  | UserFindUniqueEmail string
  | AdminFindUniqueId string
  | BcryptCompare string string

definition called :: "call \<Rightarrow> call list \<times> 'a \<Rightarrow> call list \<times> 'a" where
  "called c rest = (c # fst rest, snd rest)"

definition authenticateBasicAuth_try ::
  "deps \<Rightarrow> world \<Rightarrow> string option \<Rightarrow> call list \<times> (exn + string \<times> string)" where
  "authenticateBasicAuth_try d w authValue =
     (case authValue of
        None \<Rightarrow> ([], Inl (Error ''TypeError'' ''The first argument must be of type string''))
      | Some v \<Rightarrow>
          (let decoded = base64ToAscii d v;
               parts = split CHR '':'' decoded;
               email = at parts 0;
               password = at parts 1
           in if falsy email \<or> falsy password
              then ([], Inl (UnauthorizedException ''Invalid Basic Auth credentials format.''))
              else called (UserFindUniqueEmail (the email))
                (case user_findUnique_email w (the email) of
                   None \<Rightarrow> ([], Inl (UnauthorizedException ''User not found.''))
                 | Some user \<Rightarrow>
                     if user_isDeleted user \<or> user_status user = ''DELETED''
                     then ([], Inl (UnauthorizedException ''This account does not exist.''))
                     else if user_status user \<noteq> ''ACTIVE''
                     then ([], Inl (UnauthorizedException ''You can't login at the moment.''))
                     else called
                       (BcryptCompare (the password)
                          (case user_password user of Some p \<Rightarrow> p | None \<Rightarrow> []))
                       (if \<not> bcryptCompare d (the password)
                               (case user_password user of Some p \<Rightarrow> p | None \<Rightarrow> [])
                        then ([], Inl (BadRequestException ''Wrong Credentials, try again.''))
                        else ([], Inr (user_id user, user_role user))))))"

definition authenticateBasicAuth ::
  "deps \<Rightarrow> world \<Rightarrow> string option \<Rightarrow> call list \<times> (exn + string \<times> string)" where
  "authenticateBasicAuth d w authValue =
     (let r = authenticateBasicAuth_try d w authValue
      in (fst r,
          case snd r of
            Inr u \<Rightarrow> Inr u
          | Inl err \<Rightarrow> Inl (UnauthorizedException ''Basic Auth authentication failed.'')))"

definition authenticateUser_try ::
  "deps \<Rightarrow> world \<Rightarrow> string \<Rightarrow> call list \<times> (exn + string \<times> string)" where
  "authenticateUser_try d w authValue =
     called (VerifyAsync authValue (JWT_SECRET d))
       (case jwtVerify d authValue (JWT_SECRET d) of
          Inl err \<Rightarrow> ([], Inl err)
        | Inr payload \<Rightarrow>
            if falsy (sub payload)
            then ([], Inl (UnauthorizedException ''Invalid token: ID not present.''))
            else
              (let id = the (sub payload)
               in called (IsUserBlacklisted id)
                 (case isUserBlacklisted (redis w) id of
                    Inl err \<Rightarrow> ([], Inl err)
                  | Inr userBlacklisted \<Rightarrow>
                      if userBlacklisted
                      then ([], Inl (UnauthorizedException ''User tokens have been revoked.''))
                      else called (UserFindUniqueId id)
                        (case user_findUnique_id w id of
                           None \<Rightarrow> ([], Inl (UnauthorizedException ''User not found.''))
                         | Some user \<Rightarrow>
                             if user_isDeleted user \<or> user_status user = ''DELETED''
                             then ([], Inl (UnauthorizedException ''This account does not exist.''))
                             else if user_status user \<noteq> ''ACTIVE''
                             then ([], Inl (UnauthorizedException ''You can't login at the moment.''))
                             else ([], Inr (user_id user, user_role user))))))"

definition authenticateUser ::
  "deps \<Rightarrow> world \<Rightarrow> string option \<Rightarrow> call list \<times> (exn + string \<times> string)" where
  "authenticateUser d w authorization =
     (if falsy authorization
      then ([], Inl (UnauthorizedException ''Authorization header is missing or invalid.''))
      else
        (let parts = split CHR '' '' (the authorization);
             authType = hd parts;
             authValue = at parts 1
         in if BASIC_AUTH_ENABLED d = ''true'' \<and> toLowerCase authType = ''basic''
            then authenticateBasicAuth d w authValue
            else if toLowerCase authType \<noteq> ''bearer'' \<or> falsy authValue
            then ([], Inl (UnauthorizedException ''Invalid authorization type.''))
            else called (IsTokenBlacklisted (the authValue))
              (case isTokenBlacklisted (redis w) (the authValue) of
                 Inl err \<Rightarrow> ([], Inl err)
               | Inr isBlacklisted \<Rightarrow>
                   if isBlacklisted
                   then ([], Inl (UnauthorizedException ''Token has been revoked.''))
                   else
                     (let r = authenticateUser_try d w (the authValue)
                      in (fst r,
                          case snd r of
                            Inr u \<Rightarrow> Inr u
                          | Inl err \<Rightarrow>
                              if errName err = ''TokenExpiredError''
                              then Inl (UnauthorizedException ''Token expired.'')
                              else if errName err = ''JsonWebTokenError''
                              then Inl (UnauthorizedException ''Malformed token.'')
                              else Inl (UnauthorizedException ''Authentication failed.''))))))"

definition INVALID_JWT_TOKEN_MESSAGE :: string where
  "INVALID_JWT_TOKEN_MESSAGE = ''Invalid token''"

definition TOKEN_EXPIRED_MESSAGE :: string where
  "TOKEN_EXPIRED_MESSAGE = ''Token expired''"

definition ADMIN_SUSPENDED_MESSAGE :: string where
  "ADMIN_SUSPENDED_MESSAGE = ''Admin suspended''"

definition authenticateAdmin_try ::
  "deps \<Rightarrow> world \<Rightarrow> string \<Rightarrow> call list \<times> (exn + string \<times> string)" where
  "authenticateAdmin_try d w authValue =
     called (VerifyAsync authValue (JWT_SECRET d))
       (case jwtVerify d authValue (JWT_SECRET d) of
          Inl err \<Rightarrow> ([], Inl err)
        | Inr payload \<Rightarrow>
            if falsy (sub payload)
            then ([], Inl (UnauthorizedException INVALID_JWT_TOKEN_MESSAGE))
            else
              (let adminId = the (sub payload)
               in called (IsAdminBlacklisted adminId)
                 (case isAdminBlacklisted (redis w) adminId of
                    Inl err \<Rightarrow> ([], Inl err)
                  | Inr adminBlacklisted \<Rightarrow>
                      if adminBlacklisted
                      then ([], Inl (UnauthorizedException ''Admin tokens have been revoked.''))
                      else called (AdminFindUniqueId adminId)
                        (case admin_findUnique_id w adminId of
                           None \<Rightarrow> ([], Inl (UnauthorizedException ''Admin not found''))
                         | Some admin \<Rightarrow>
                             if admin_isDeleted admin
                             then ([], Inl (UnauthorizedException ''Admin not found''))
                             else if admin_isSuspended admin
                             then ([], Inl (UnauthorizedException ADMIN_SUSPENDED_MESSAGE))
                             else ([], Inr (admin_id admin, admin_role admin))))))"

definition authenticateAdmin ::
  "deps \<Rightarrow> world \<Rightarrow> string option \<Rightarrow> call list \<times> (exn + string \<times> string)" where
  "authenticateAdmin d w authorization =
     (if falsy authorization
      then ([], Inl (UnauthorizedException ''Authorization header is missing or invalid''))
      else
        (let parts = split CHR '' '' (the authorization);
             authType = hd parts;
             authValue = at parts 1
         in if toLowerCase authType \<noteq> ''bearer'' \<or> falsy authValue
            then ([], Inl (UnauthorizedException ''Invalid authorization type''))
            else called (IsTokenBlacklisted (the authValue))
              (case isTokenBlacklisted (redis w) (the authValue) of
                 Inl err \<Rightarrow> ([], Inl err)
               | Inr isBlacklisted \<Rightarrow>
                   if isBlacklisted
                   then ([], Inl (UnauthorizedException ''Token has been revoked.''))
                   else
                     (let r = authenticateAdmin_try d w (the authValue)
                      in (fst r,
                          case snd r of
                            Inr a \<Rightarrow> Inr a
                          | Inl err \<Rightarrow>
                              if errName err = ''TokenExpiredError''
                              then Inl (UnauthorizedException TOKEN_EXPIRED_MESSAGE)
                              else if errName err = ''JsonWebTokenError''
                              then Inl (BadRequestException INVALID_JWT_TOKEN_MESSAGE)
                              else if (case err of UnauthorizedException m \<Rightarrow> True | _ \<Rightarrow> False)
                              then Inl err
                              else Inl (UnauthorizedException ''Authentication failed''))))))"

section \<open>The email service (src/shared/emails)\<close>

definition OTP_EXPIRATION_TIME :: nat where
  "OTP_EXPIRATION_TIME = 5"

definition DEFAULT_OTP :: string where
  "DEFAULT_OTP = ''111111''"

fun digitChar :: "nat \<Rightarrow> char" where
  "digitChar n = ''0123456789'' ! (n mod 10)"

fun String :: "nat \<Rightarrow> string" where
  \<comment> \<open>\<open>String(n)\<close> and \<open>n.toString()\<close> for a non-negative integer: its decimal digits\<close>
  "String n = (if n < 10 then [digitChar n] else String (n div 10) @ [digitChar n])"

declare String.simps [simp del]

definition padStart :: "string \<Rightarrow> nat \<Rightarrow> char \<Rightarrow> string" where
  "padStart s targetLength c = replicate (targetLength - length s) c @ s"

definition addEmailToQueue :: "world \<Rightarrow> email_job \<Rightarrow> world" where
  \<comment> \<open>\<open>queue.add\<close> inside \<open>try\<close>; a failure is logged and swallowed\<close>
  "addEmailToQueue w emailData =
     (if emailQueueThrows w then w else w\<lparr>emailQueue := emailQueue w @ [emailData]\<rparr>)"

definition shouldSkipEmail :: "world \<Rightarrow> string \<Rightarrow> bool" where
  "shouldSkipEmail w recipientEmail =
     (case user_findUnique_email w recipientEmail of
        None \<Rightarrow> False
      | Some user \<Rightarrow> user_isDeleted user \<or> user_status user = ''DELETED'')"

definition sendEmail ::
  "world \<Rightarrow> string \<Rightarrow> string \<Rightarrow> string \<Rightarrow> (string \<times> string) list \<Rightarrow> world" where
  "sendEmail w recipientEmail subj templ ctxt =
     (if shouldSkipEmail w recipientEmail then w
      else addEmailToQueue w
             \<lparr>job_recipient = recipientEmail, job_subject = subj, job_template = templ,
              job_context = ctxt\<rparr>)"

definition frontendUrl :: "deps \<Rightarrow> string" where
  \<comment> \<open>\<open>process.env.FRONTEND_URL || 'http://localhost:3000'\<close>; unset is the empty string\<close>
  "frontendUrl d = (if FRONTEND_URL d = [] then ''http://localhost:3000'' else FRONTEND_URL d)"

definition sendEmailVerification :: "deps \<Rightarrow> world \<Rightarrow> string \<Rightarrow> string \<Rightarrow> string \<Rightarrow> world" where
  "sendEmailVerification d w email code userName =
     sendEmail w email ''Verify Your Email Address'' ''email-verification''
       [(''code'', code), (''userName'', userName),
        (''expiryMinutes'', String OTP_EXPIRATION_TIME), (''frontendUrl'', frontendUrl d)]"

definition sendUserPasswordResetCode ::
  "deps \<Rightarrow> world \<Rightarrow> string \<Rightarrow> string \<Rightarrow> string \<Rightarrow> world" where
  "sendUserPasswordResetCode d w email code userName =
     sendEmail w email ''Reset Your Password'' ''password-reset''
       [(''code'', code), (''userName'', userName),
        (''expiryMinutes'', String OTP_EXPIRATION_TIME), (''requestDate'', dateLocale d),
        (''frontendUrl'', frontendUrl d)]"

definition sendAdminPasswordResetCode ::
  "deps \<Rightarrow> world \<Rightarrow> string \<Rightarrow> string \<Rightarrow> string \<Rightarrow> string \<Rightarrow> world" where
  "sendAdminPasswordResetCode d w email code userName requestIP =
     sendEmail w email ''Reset Your Password - Admin'' ''password-reset''
       [(''code'', code), (''userName'', userName),
        (''expiryMinutes'', String OTP_EXPIRATION_TIME), (''requestIP'', requestIP),
        (''requestDate'', dateLocale d), (''frontendUrl'', frontendUrl d)]"

section \<open>Responses\<close>

record token_pair =
  accessToken :: string
  refreshToken :: string

datatype response_data =
    Null
  | LoginData "string option \<times> string \<times> string \<times> string \<times> string" "bool option"
      "token_pair option"
    \<comment> \<open>\<open>{user: {id?, email, firstName, lastName, role}, emailVerified?, tokens}\<close>; a field
        the object does not have, and \<open>tokens: null\<close>, are \<open>None\<close>\<close>
  | TokensData token_pair
  | ResetTokenData string string
  | VerifiedData bool

record response =
  status :: string
  message :: string
  data :: response_data

definition SuccessResponse :: "string \<Rightarrow> response_data \<Rightarrow> response" where
  "SuccessResponse msg dat = \<lparr>status = ''success'', message = msg, data = dat\<rparr>"

section \<open>The user authentication service (src/modules/auth/services/user-auth.service.ts)\<close>

definition MAX_PASSWORD_RESET_ATTEMPTS :: nat where
  "MAX_PASSWORD_RESET_ATTEMPTS = 3"

definition SCHEMA_DEFAULT_ATTEMPTS :: nat where
  \<comment> \<open>Modelled from the spec: \<open>prisma/schema.prisma\<close> is not among the sources. The value
      of \<open>attempts\<close> in a record created without one: the spec's counter of failed attempts,
      which is compared with the cap and incremented from the first wrong code on, so it
      starts at 0.\<close>
  "SCHEMA_DEFAULT_ATTEMPTS = 0"

definition otpExpiresAt :: "deps \<Rightarrow> int" where
  \<comment> \<open>\<open>new Date(Date.now() + OTP_EXPIRATION_TIME * 60 * 1000)\<close>\<close>
  "otpExpiresAt d = dateNow d + int OTP_EXPIRATION_TIME * 60 * 1000"

definition generateTokens :: "deps \<Rightarrow> string \<Rightarrow> string \<Rightarrow> string \<Rightarrow> token_pair" where
  "generateTokens d userId email role =
     \<lparr>accessToken = jwtSign d (userId, email, role) (JWT_SECRET d) (JWT_EXPIRY_TIME d),
      refreshToken =
        jwtSign d (userId, email, role) (JWT_REFRESH_SECRET d) (JWT_REFRESH_EXPIRY_TIME d)\<rparr>"

definition sendEmailVerificationCode :: "deps \<Rightarrow> world \<Rightarrow> user \<Rightarrow> world" where
  "sendEmailVerificationCode d w user =
     (let verificationCode = String (randomInt d 100000 999999);
          key = (user_email user, ''SIGNUP'');
          w1 = w\<lparr>emailVerification := (emailVerification w)(key \<mapsto>
                 (case emailVerification w key of
                    None \<Rightarrow>
                      \<lparr>verification_code = verificationCode,
                       verification_expiresAt = otpExpiresAt d,
                       verification_attempts = SCHEMA_DEFAULT_ATTEMPTS\<rparr>
                  | Some v \<Rightarrow>
                      v\<lparr>verification_code := verificationCode,
                        verification_expiresAt := otpExpiresAt d,
                        verification_attempts := 0\<rparr>))\<rparr>
      in sendEmailVerification d w1 (user_email user) verificationCode
           (user_firstName user @ '' '' @ user_lastName user))"

definition UserAuthService_login ::
  "deps \<Rightarrow> world \<Rightarrow> string \<Rightarrow> string \<Rightarrow> world \<times> (exn + response)" where
  "UserAuthService_login d w email password =
     (case user_findUnique_email w email of
        None \<Rightarrow> (w, Inl (UnauthorizedException ''Invalid email or password''))
      | Some user \<Rightarrow>
          if \<not> user_emailVerified user
          then (sendEmailVerificationCode d w user,
                Inr (SuccessResponse ''Please verify your email first''
                  (LoginData
                     (None, user_email user, user_firstName user, user_lastName user,
                      user_role user)
                     (Some False) None)))
          else if user_isDeleted user \<or> user_status user = ''DELETED''
          then (w, Inl (UnauthorizedException ''This account does not exist''))
          else if user_status user \<noteq> ''ACTIVE''
          then (w, Inl (UnauthorizedException ''You can't login at the moment''))
          else if falsy (user_password user)
          then (w, Inl (UnauthorizedException
                  ''Please use the appropriate login method for your account''))
          else if \<not> bcryptCompare d password (the (user_password user))
          then (w, Inl (UnauthorizedException ''Invalid email or password''))
          else (w, Inr (SuccessResponse ''Login successful''
                  (LoginData
                     (Some (user_id user), user_email user, user_firstName user,
                      user_lastName user, user_role user)
                     None
                     (Some (generateTokens d (user_id user) (user_email user)
                              (user_role user)))))))"

definition UserAuthService_forgotPassword ::
  "deps \<Rightarrow> world \<Rightarrow> string \<Rightarrow> world \<times> (exn + response)" where
  "UserAuthService_forgotPassword d w email =
     (case user_findUnique_email w email of
        None \<Rightarrow> (w, Inl (NotFoundException ''Invalid email''))
      | Some user \<Rightarrow>
          (let code = String (randomInt d 100000 999999);
               key = (email, ''USER'');
               w1 = w\<lparr>passwordReset := (passwordReset w)(key \<mapsto>
                      (case passwordReset w key of
                         None \<Rightarrow>
                           \<lparr>reset_code = code, reset_expiresAt = otpExpiresAt d,
                            reset_attempts = SCHEMA_DEFAULT_ATTEMPTS, reset_verifiedAt = None\<rparr>
                       | Some r \<Rightarrow>
                           r\<lparr>reset_code := code, reset_expiresAt := otpExpiresAt d,
                             reset_attempts := 0, reset_verifiedAt := None\<rparr>))\<rparr>;
               w2 = sendUserPasswordResetCode d w1 email code
                      (user_firstName user @ '' '' @ user_lastName user)
           in (w2, Inr (SuccessResponse ''Password reset code sent to your email'' Null))))"

definition UserAuthService_verifyResetCode ::
  "deps \<Rightarrow> world \<Rightarrow> string \<Rightarrow> string \<Rightarrow> world \<times> (exn + response)" where
  "UserAuthService_verifyResetCode d w email code =
     (case user_findUnique_email w email of
        None \<Rightarrow> (w, Inl (NotFoundException ''Invalid email''))
      | Some user \<Rightarrow>
          (case passwordReset w (email, ''USER'') of
             None \<Rightarrow> (w, Inl (BadRequestException ''Please request a password reset first''))
           | Some pr \<Rightarrow>
               if reset_expiresAt pr < dateNow d
               then (w, Inl (BadRequestException ''Password reset code expired''))
               else if reset_attempts pr \<ge> MAX_PASSWORD_RESET_ATTEMPTS
               then (w, Inl (BadRequestException
                       ''Too many failed attempts. Please request a new reset code.''))
               else if reset_code pr \<noteq> code
               then (w\<lparr>passwordReset := (passwordReset w)((email, ''USER'') \<mapsto>
                        pr\<lparr>reset_attempts := reset_attempts pr + 1\<rparr>)\<rparr>,
                     Inl (BadRequestException ''Invalid reset code''))
               else (w\<lparr>passwordReset := (passwordReset w)((email, ''USER'') \<mapsto>
                        pr\<lparr>reset_verifiedAt := Some (dateNow d)\<rparr>)\<rparr>,
                     Inr (SuccessResponse ''Reset code verified successfully''
                       (ResetTokenData (jwtSignReset d email (JWT_SECRET d) ''15m'')
                          ''You can now reset your password'')))))"

definition subKey :: "string option \<Rightarrow> string" where
  \<comment> \<open>\<open>payload.sub\<close> inside a template string: \<open>undefined\<close> prints as such\<close>
  "subKey s = (case s of None \<Rightarrow> ''undefined'' | Some i \<Rightarrow> i)"

definition UserAuthService_refreshToken_try :: "deps \<Rightarrow> world \<Rightarrow> string \<Rightarrow> exn + response" where
  \<comment> \<open>the body of the \<open>try\<close> block\<close>
  "UserAuthService_refreshToken_try d w token =
     (case isTokenBlacklisted (redis w) token of
        Inl err \<Rightarrow> Inl err
      | Inr isBlacklisted \<Rightarrow>
          if isBlacklisted then Inl (UnauthorizedException ''Token has been revoked'')
          else
            (case jwtVerify d token (JWT_REFRESH_SECRET d) of
               Inl err \<Rightarrow> Inl err
             | Inr payload \<Rightarrow>
                 (case isUserBlacklisted (redis w) (subKey (sub payload)) of
                    Inl err \<Rightarrow> Inl err
                  | Inr userBlacklisted \<Rightarrow>
                      if userBlacklisted
                      then Inl (UnauthorizedException ''User tokens have been revoked'')
                      else
                        (case sub payload of
                           None \<Rightarrow> Inl (Error ''PrismaClientValidationError'' ''id is missing'')
                         | Some i \<Rightarrow>
                             (case user_findUnique_id w i of
                                None \<Rightarrow> Inl (UnauthorizedException ''Please log in again'')
                              | Some user \<Rightarrow>
                                  if user_isDeleted user \<or> user_status user \<noteq> ''ACTIVE''
                                  then Inl (UnauthorizedException ''Please log in again'')
                                  else Inr (SuccessResponse ''Token refreshed successfully''
                                    (TokensData (generateTokens d (user_id user)
                                       (user_email user) (user_role user)))))))))"

definition UserAuthService_refreshToken :: "deps \<Rightarrow> world \<Rightarrow> string \<Rightarrow> exn + response" where
  "UserAuthService_refreshToken d w token =
     (case UserAuthService_refreshToken_try d w token of
        Inr res \<Rightarrow> Inr res
      | Inl error \<Rightarrow> Inl (UnauthorizedException ''Invalid refresh token''))"

definition remainingTTL :: "jwt_payload \<Rightarrow> int \<Rightarrow> int option" where
  \<comment> \<open>\<open>Math.max(0, payload.exp - now)\<close>; \<open>None\<close> is the \<open>NaN\<close> of a payload without \<open>exp\<close>\<close>
  "remainingTTL payload now = (case exp payload of None \<Rightarrow> None | Some e \<Rightarrow> Some (max 0 (e - now)))"

definition positive :: "int option \<Rightarrow> bool" where
  \<comment> \<open>\<open>ttl > 0\<close>, false for \<open>NaN\<close>\<close>
  "positive ttl = (case ttl of None \<Rightarrow> False | Some n \<Rightarrow> n > 0)"

definition nowSeconds :: "deps \<Rightarrow> int" where
  \<comment> \<open>\<open>Math.floor(Date.now() / 1000)\<close>\<close>
  "nowSeconds d = dateNow d div 1000"

definition UserAuthService_logout ::
  "deps \<Rightarrow> world \<Rightarrow> string \<Rightarrow> string \<Rightarrow> world \<times> response" where
  "UserAuthService_logout d w refreshTok accessTok =
     (case (jwtDecode d accessTok, jwtDecode d refreshTok) of
        (Some accessPayload, Some refreshPayload) \<Rightarrow>
          (let now = nowSeconds d;
               accessTTL = remainingTTL accessPayload now;
               refreshTTL = remainingTTL refreshPayload now
           in case (if positive accessTTL
                    then blacklistToken (redis w) accessTok (the accessTTL)
                    else Inr (redis w)) of
                Inl error \<Rightarrow> (w, SuccessResponse ''Logout successful'' Null)
              | Inr r1 \<Rightarrow>
                  (case (if positive refreshTTL
                         then blacklistToken r1 refreshTok (the refreshTTL)
                         else Inr r1) of
                     Inl error \<Rightarrow> (w\<lparr>redis := r1\<rparr>, SuccessResponse ''Logout successful'' Null)
                   | Inr r2 \<Rightarrow> (w\<lparr>redis := r2\<rparr>, SuccessResponse ''Logout successful'' Null)))
      | _ \<Rightarrow> (w, SuccessResponse ''Logout successful'' Null))"

section \<open>The admin authentication service (src/modules/auth/services/admin-auth.service.ts)\<close>

definition AdminAuthService_forgotPassword ::
  "deps \<Rightarrow> world \<Rightarrow> string \<Rightarrow> string option \<Rightarrow> world \<times> (exn + response)" where
  \<comment> \<open>The email service cannot throw (it catches the queue's failure), so the \<open>catch\<close>
      around the call, which would answer 400, is never entered and is left out.\<close>
  "AdminAuthService_forgotPassword d w email requestIP =
     (case admin_findUnique_email w email of
        None \<Rightarrow> (w, Inl (NotFoundException ''Admin not found''))
      | Some admin \<Rightarrow>
          (let code = (if IS_DEVELOPMENT d then DEFAULT_OTP
                       else padStart (String (randomInt d 0 10000)) 4 CHR ''0'');
               expiresAt = otpExpiresAt d;
               key = (email, ''ADMIN'');
               w1 = w\<lparr>passwordReset := (passwordReset w)(key \<mapsto>
                      (case passwordReset w key of
                         None \<Rightarrow>
                           \<lparr>reset_code = code, reset_expiresAt = expiresAt,
                            reset_attempts = SCHEMA_DEFAULT_ATTEMPTS, reset_verifiedAt = None\<rparr>
                       | Some r \<Rightarrow>
                           r\<lparr>reset_code := code, reset_expiresAt := expiresAt,
                             reset_attempts := 0\<rparr>))\<rparr>;
               w2 = sendAdminPasswordResetCode d w1 (admin_email admin) code
                      (admin_firstName admin @ '' '' @ admin_lastName admin)
                      (if falsy requestIP then ''Unknown'' else the requestIP)
           in (w2, Inr (SuccessResponse ''Password reset code sent to email'' Null))))"

definition AdminAuthService_verifyCode ::
  "deps \<Rightarrow> world \<Rightarrow> string \<Rightarrow> string \<Rightarrow> world \<times> (exn + response)" where
  "AdminAuthService_verifyCode d w email code =
     (case passwordReset w (email, ''ADMIN'') of
        None \<Rightarrow> (w, Inl (BadRequestException ''No reset request found for this email''))
      | Some resetData \<Rightarrow>
          if dateNow d > reset_expiresAt resetData
          then (w\<lparr>passwordReset := (passwordReset w)((email, ''ADMIN'') := None)\<rparr>,
                Inl (BadRequestException ''Reset code expired''))
          else if reset_attempts resetData \<ge> MAX_PASSWORD_RESET_ATTEMPTS
          then (w\<lparr>passwordReset := (passwordReset w)((email, ''ADMIN'') := None)\<rparr>,
                Inl (BadRequestException ''Too many failed attempts''))
          else if reset_code resetData \<noteq> code
          then (w\<lparr>passwordReset := (passwordReset w)((email, ''ADMIN'') \<mapsto>
                   resetData\<lparr>reset_attempts := reset_attempts resetData + 1\<rparr>)\<rparr>,
                Inl (BadRequestException ''Invalid reset code''))
          else (w, Inr (SuccessResponse ''Code verified successfully'' (VerifiedData True))))"

definition AdminAuthService_refreshToken_try :: "deps \<Rightarrow> world \<Rightarrow> string \<Rightarrow> exn + response" where
  \<comment> \<open>the body of the \<open>try\<close> block\<close>
  "AdminAuthService_refreshToken_try d w token =
     (case isTokenBlacklisted (redis w) token of
        Inl err \<Rightarrow> Inl err
      | Inr isBlacklisted \<Rightarrow>
          if isBlacklisted then Inl (UnauthorizedException ''Token has been revoked'')
          else
            (case jwtVerify d token (JWT_REFRESH_SECRET d) of
               Inl err \<Rightarrow> Inl err
             | Inr decoded \<Rightarrow>
                 (case isAdminBlacklisted (redis w) (subKey (sub decoded)) of
                    Inl err \<Rightarrow> Inl err
                  | Inr adminBlacklisted \<Rightarrow>
                      if adminBlacklisted
                      then Inl (UnauthorizedException ''Admin tokens have been revoked'')
                      else
                        (case sub decoded of
                           None \<Rightarrow> Inl (Error ''PrismaClientValidationError'' ''id is missing'')
                         | Some i \<Rightarrow>
                             (case admin_findUnique_id w i of
                                None \<Rightarrow> Inl (UnauthorizedException ''Admin not found or inactive'')
                              | Some admin \<Rightarrow>
                                  if admin_isDeleted admin \<or> admin_isSuspended admin
                                  then Inl (UnauthorizedException ''Admin not found or inactive'')
                                  else Inr (SuccessResponse ''Token refreshed successfully''
                                    (TokensData (generateTokens d (admin_id admin)
                                       (admin_email admin) (admin_role admin)))))))))"

definition AdminAuthService_refreshToken :: "deps \<Rightarrow> world \<Rightarrow> string \<Rightarrow> exn + response" where
  "AdminAuthService_refreshToken d w token =
     (case AdminAuthService_refreshToken_try d w token of
        Inr res \<Rightarrow> Inr res
      | Inl error \<Rightarrow> Inl (UnauthorizedException ''Invalid or expired refresh token''))"

definition AdminAuthService_logout ::
  "deps \<Rightarrow> world \<Rightarrow> string option \<Rightarrow> string \<Rightarrow> world \<times> response" where
  "AdminAuthService_logout d w refreshTok accessTok =
     (case jwtDecode d accessTok of
        None \<Rightarrow> (w, SuccessResponse ''Logout successful'' Null)
      | Some accessPayload \<Rightarrow>
          (let now = nowSeconds d;
               accessTTL = remainingTTL accessPayload now
           in case (if positive accessTTL
                    then blacklistToken (redis w) accessTok (the accessTTL)
                    else Inr (redis w)) of
                Inl error \<Rightarrow> (w, SuccessResponse ''Logout successful'' Null)
              | Inr r1 \<Rightarrow>
                  (case (if falsy refreshTok then Inr r1
                         else
                           (case jwtDecode d (the refreshTok) of
                              None \<Rightarrow> Inr r1
                            | Some refreshPayload \<Rightarrow>
                                (let refreshTTL = remainingTTL refreshPayload now
                                 in if positive refreshTTL
                                    then blacklistToken r1 (the refreshTok) (the refreshTTL)
                                    else Inr r1))) of
                     Inl error \<Rightarrow> (w\<lparr>redis := r1\<rparr>, SuccessResponse ''Logout successful'' Null)
                   | Inr r2 \<Rightarrow> (w\<lparr>redis := r2\<rparr>, SuccessResponse ''Logout successful'' Null))))"

section \<open>Notions the logout properties are stated with\<close>

definition presentedTTL :: "deps \<Rightarrow> string \<Rightarrow> int option" where
  \<comment> \<open>the remaining lifetime logout computes for a presented token: \<open>max(0, exp - now)\<close> of
      its non-verifying decode; \<open>None\<close> when the token does not decode or carries no \<open>exp\<close>\<close>
  "presentedTTL d token =
     (case jwtDecode d token of None \<Rightarrow> None | Some payload \<Rightarrow> remainingTTL payload (nowSeconds d))"

definition written :: "deps \<Rightarrow> string \<Rightarrow> (string \<rightharpoonup> int \<times> string) \<Rightarrow> (string \<rightharpoonup> int \<times> string)" where
  \<comment> \<open>the store after the token has been blacklisted, if its remaining lifetime is positive\<close>
  "written d token s =
     (if positive (presentedTTL d token)
      then s(''blacklist:'' @ token \<mapsto> (the (presentedTTL d token), ''1''))
      else s)"

section \<open>Example inputs\<close>

text \<open>
  A small deployment the properties below are run on. The clock stands at 1700000000000
  ms. Alice (\<open>u1\<close>) is an active, verified user; Bob (\<open>u2\<close>) is soft-deleted and never
  verified his email; Carol (\<open>u3\<close>) is active and unverified; Mallory (\<open>u9\<close>) is active,
  with all her tokens revoked. Root (\<open>a1\<close>) is an active admin, \<open>a2\<close> is suspended and
  \<open>a9\<close> has all tokens revoked.
\<close>

definition ex_payload :: "string \<Rightarrow> string \<Rightarrow> string \<Rightarrow> int \<Rightarrow> jwt_payload" where
  "ex_payload i e r x = \<lparr>sub = Some i, payload_email = e, payload_role = r, exp = Some x\<rparr>"

definition ex_tokens :: "(string \<times> string \<times> jwt_payload) list" where
  \<comment> \<open>the tokens in circulation: the token, the secret it is signed with, its payload\<close>
  "ex_tokens =
     [(''acc.alice'', ''access-secret'', ex_payload ''u1'' ''alice@x.io'' ''USER'' 1700000100),
      (''ref.alice'', ''refresh-secret'', ex_payload ''u1'' ''alice@x.io'' ''USER'' 1700600000),
      (''acc.bob'', ''access-secret'', ex_payload ''u2'' ''bob@x.io'' ''USER'' 1700000100),
      (''acc.revoked'', ''access-secret'', ex_payload ''u1'' ''alice@x.io'' ''USER'' 1700000100),
      (''ref.mallory'', ''refresh-secret'', ex_payload ''u9'' ''mallory@x.io'' ''USER'' 1700600000),
      (''acc.root'', ''access-secret'', ex_payload ''a1'' ''root@x.io'' ''ADMIN'' 1700000100),
      (''ref.root'', ''refresh-secret'', ex_payload ''a1'' ''root@x.io'' ''ADMIN'' 1700600000),
      (''acc.a2'', ''access-secret'', ex_payload ''a2'' ''sus@x.io'' ''MODERATOR'' 1700000100),
      (''ref.a9'', ''refresh-secret'', ex_payload ''a9'' ''nine@x.io'' ''ADMIN'' 1700600000),
      (''acc.old'', ''access-secret'', ex_payload ''u1'' ''alice@x.io'' ''USER'' 1699990000)]"

definition ex_jwtVerify :: "string \<Rightarrow> string \<Rightarrow> exn + jwt_payload" where
  "ex_jwtVerify token secret =
     (case map_of ex_tokens token of
        None \<Rightarrow> Inl (Error ''JsonWebTokenError'' ''jwt malformed'')
      | Some (s, p) \<Rightarrow>
          if s \<noteq> secret then Inl (Error ''JsonWebTokenError'' ''invalid signature'')
          else if the (exp p) \<le> 1700000000 then Inl (Error ''TokenExpiredError'' ''jwt expired'')
          else Inr p)"

definition ex_jwtDecode :: "string \<Rightarrow> jwt_payload option" where
  "ex_jwtDecode token = map_option snd (map_of ex_tokens token)"

definition ex_jwtSign :: "string \<times> string \<times> string \<Rightarrow> string \<Rightarrow> string \<Rightarrow> string" where
  "ex_jwtSign p secret expiresIn = fst p @ ''/'' @ secret @ ''/'' @ expiresIn"

definition ex_jwtSignReset :: "string \<Rightarrow> string \<Rightarrow> string \<Rightarrow> string" where
  "ex_jwtSignReset e secret expiresIn = ''reset:'' @ e"

definition ex_bcryptCompare :: "string \<Rightarrow> string \<Rightarrow> bool" where
  "ex_bcryptCompare password hash = (hash = ''hash:'' @ password)"

definition ex_randomInt :: "nat \<Rightarrow> nat \<Rightarrow> nat" where
  "ex_randomInt lo hi = lo + 23456 mod (hi - lo)"

definition ex_deps :: deps where
  "ex_deps =
     \<lparr>JWT_SECRET = ''access-secret'', JWT_REFRESH_SECRET = ''refresh-secret'',
      JWT_EXPIRY_TIME = ''12h'', JWT_REFRESH_EXPIRY_TIME = ''7d'',
      BASIC_AUTH_ENABLED = ''true'', IS_DEVELOPMENT = False,
      FRONTEND_URL = ''http://localhost:3000'',
      jwtVerify = ex_jwtVerify, jwtDecode = ex_jwtDecode, jwtSign = ex_jwtSign,
      jwtSignReset = ex_jwtSignReset, bcryptCompare = ex_bcryptCompare,
      base64ToAscii = id, dateNow = 1700000000000, dateLocale = ''Nov 14, 2023'',
      randomInt = ex_randomInt\<rparr>"

definition ex_redis :: redis_client where
  "ex_redis =
     \<lparr>store = [''blacklist:acc.revoked'' \<mapsto> (100, ''1''),
               ''blacklist:user:u9'' \<mapsto> (604800, ''1''),
               ''blacklist:admin:a9'' \<mapsto> (604800, ''1'')],
      getThrows = (\<lambda>key. False), setExThrows = (\<lambda>key. False)\<rparr>"

definition ex_redis_down :: redis_client where
  \<comment> \<open>the same store, unreachable\<close>
  "ex_redis_down = ex_redis\<lparr>getThrows := (\<lambda>key. True), setExThrows := (\<lambda>key. True)\<rparr>"

definition ex_user :: "string \<Rightarrow> string \<Rightarrow> string \<Rightarrow> bool \<Rightarrow> bool \<Rightarrow> user" where
  "ex_user i e st del ver =
     \<lparr>user_id = i, user_email = e, user_password = Some (''hash:pw-'' @ i),
      user_firstName = ''F'', user_lastName = ''L'', user_role = ''USER'',
      user_status = st, user_isDeleted = del, user_emailVerified = ver\<rparr>"

definition ex_admin :: "string \<Rightarrow> string \<Rightarrow> string \<Rightarrow> bool \<Rightarrow> bool \<Rightarrow> admin" where
  "ex_admin i e r del sus =
     \<lparr>admin_id = i, admin_email = e, admin_password = ''hash:pw-'' @ i,
      admin_firstName = ''F'', admin_lastName = ''L'', admin_role = r,
      admin_isDeleted = del, admin_isSuspended = sus\<rparr>"

definition ex_world :: world where
  "ex_world =
     \<lparr>redis = ex_redis,
      users = [ex_user ''u1'' ''alice@x.io'' ''ACTIVE'' False True,
               ex_user ''u2'' ''bob@x.io'' ''ACTIVE'' True False,
               ex_user ''u3'' ''carol@x.io'' ''ACTIVE'' False False,
               ex_user ''u9'' ''mallory@x.io'' ''ACTIVE'' False True],
      admins = [ex_admin ''a1'' ''root@x.io'' ''ADMIN'' False False,
                ex_admin ''a2'' ''sus@x.io'' ''MODERATOR'' False True,
                ex_admin ''a9'' ''nine@x.io'' ''ADMIN'' False False],
      passwordReset = Map.empty,
      emailVerification = Map.empty,
      emailQueue = [],
      emailQueueThrows = False\<rparr>"

definition ex_world_flaky :: world where
  \<comment> \<open>the same deployment, with a Redis that fails the write of one key\<close>
  "ex_world_flaky =
     ex_world\<lparr>redis := ex_redis\<lparr>setExThrows := (\<lambda>key. key = ''blacklist:acc.alice'')\<rparr>\<rparr>"

definition ex_reset :: "string \<Rightarrow> nat \<Rightarrow> password_reset" where
  "ex_reset c n =
     \<lparr>reset_code = c, reset_expiresAt = 1700000200000, reset_attempts = n,
      reset_verifiedAt = None\<rparr>"

definition ex_world_reset :: world where
  \<comment> \<open>the same deployment with password resets under way, none of them expired\<close>
  "ex_world_reset =
     ex_world\<lparr>passwordReset :=
       [(''alice@x.io'', ''USER'') \<mapsto> ex_reset ''123456'' 3,
        (''carol@x.io'', ''USER'') \<mapsto> ex_reset ''654321'' 1,
        (''root@x.io'', ''ADMIN'') \<mapsto> ex_reset ''1234'' 3,
        (''nine@x.io'', ''ADMIN'') \<mapsto> ex_reset ''4321'' 2]\<rparr>"

section \<open>Properties of the expiry parser\<close>

lemma ulp_below: "n < 2 ^ 53 \<Longrightarrow> ulp n = 1"
  by (subst ulp.simps) simp

lemma ulp_at: "ulp 9007199254740992 = 2"
  by (subst ulp.simps) (simp add: ulp_below)

lemma roundToDouble_exact: "n \<le> 2 ^ 53 \<Longrightarrow> roundToDouble n = Finite n"
proof (cases "n < 2 ^ 53")
  case True
  then show ?thesis by (simp add: roundToDouble_def ulp_below)
next
  case False
  assume "n \<le> 2 ^ 53"
  with False have "n = 2 ^ 53" by simp
  then show ?thesis by (simp add: roundToDouble_def ulp_at)
qed

lemma unit_not_digit: "isUnitLetter u \<Longrightarrow> \<not> isDigit u"
  by (auto simp: isUnitLetter_def isDigit_def)

lemma expiryRegexExec_match:
  assumes "ds \<noteq> []" "\<forall>c\<in>set ds. isDigit c" "isUnitLetter u"
  shows "expiryRegexExec (ds @ [u]) = Some (ds, [u])"
proof -
  have nd: "\<not> isDigit u" using assms(3) by (rule unit_not_digit)
  have t: "takeWhile isDigit (ds @ [u]) = ds" using assms(2) nd by (simp add: takeWhile_append2)
  have d: "dropWhile isDigit (ds @ [u]) = [u]" using assms(2) nd by (simp add: dropWhile_append2)
  show ?thesis using assms(1,3) by (simp add: expiryRegexExec_def t d)
qed

lemma expiryRegexExec_Some:
  assumes "expiryRegexExec s = Some (g1, g2)"
  shows "\<exists>u. s = g1 @ [u] \<and> g2 = [u] \<and> g1 \<noteq> [] \<and> (\<forall>c\<in>set g1. isDigit c) \<and> isUnitLetter u"
proof -
  obtain u where r: "dropWhile isDigit s = [u]" and g: "g1 = takeWhile isDigit s" "g2 = [u]" "g1 \<noteq> []" "isUnitLetter u"
    using assms by (auto simp: expiryRegexExec_def Let_def split: list.splits if_splits)
  have "s = takeWhile isDigit s @ dropWhile isDigit s" by simp
  then have "s = g1 @ [u]" using r g(1) by simp
  moreover have "\<forall>c\<in>set g1. isDigit c" using g(1) by (auto dest: set_takeWhileD)
  ultimately show ?thesis using g by blast
qed

lemma unit_mult:
  assumes "isUnitLetter u"
  shows "(case unitMultipliers (toLowerCase [u]) of Some m \<Rightarrow> m | None \<Rightarrow> DEFAULT_TOKEN_EXPIRY_SECONDS) =
     (if u = CHR ''s'' \<or> u = CHR ''S'' then 1
      else if u = CHR ''m'' \<or> u = CHR ''M'' then 60
      else if u = CHR ''h'' \<or> u = CHR ''H'' then 3600
      else if u = CHR ''d'' \<or> u = CHR ''D'' then 86400
      else 604800)"
proof -
  from assms have "u = CHR ''s'' \<or> u = CHR ''m'' \<or> u = CHR ''h'' \<or> u = CHR ''d'' \<or> u = CHR ''w'' \<or>
     u = CHR ''S'' \<or> u = CHR ''M'' \<or> u = CHR ''H'' \<or> u = CHR ''D'' \<or> u = CHR ''W''"
    by (simp add: isUnitLetter_def)
  then show ?thesis
    by (elim disjE)
       (simp_all add: unitMultipliers_def toLowerCase_def toLowerCaseChar_def
          DEFAULT_TOKEN_EXPIRY_SECONDS_def)
qed

lemma numberTimes_exact:
  assumes "0 < m" "v * m \<le> 2 ^ 53"
  shows "numberTimes (roundToDouble v) m = Finite (v * m)"
proof -
  have "v \<le> v * m" using assms(1) by (cases m) simp_all
  then have "v \<le> 2 ^ 53" using assms(2) by (rule le_trans)
  then have "roundToDouble v = Finite v" by (rule roundToDouble_exact)
  then show ?thesis using roundToDouble_exact[OF assms(2)] by (simp add: numberTimes_def)
qed

text \<open>
  C9, as stated, fails on the code: the parser computes in doubles, and the digits
  \<open>9007199254740993\<close> (\<open>2^53 + 1\<close>) with the unit \<open>s\<close> give 9007199254740992, not the
  value of the digits times the multiplier 1.
\<close>

theorem parseExpiryToSeconds_rounds_beyond_2_53:
  "parseExpiryToSeconds ''9007199254740993s'' = Finite 9007199254740992
   \<and> decimalValue ''9007199254740993'' * 1 = 9007199254740993"
proof -
  have e: "expiryRegexExec ''9007199254740993s'' = Some (''9007199254740993'', ''s'')"
    by (simp add: expiryRegexExec_def isDigit_def isUnitLetter_def)
  have v: "decimalValue ''9007199254740993'' = 9007199254740993"
    by (simp add: decimalValue_def digitValue_def)
  have r: "roundToDouble 9007199254740993 = Finite 9007199254740992"
    by (simp add: roundToDouble_def ulp.simps)
  have x: "roundToDouble 9007199254740992 = Finite 9007199254740992"
    by (rule roundToDouble_exact) simp
  have m: "unitMultipliers (toLowerCase ''s'') = Some 1"
    by (simp add: unitMultipliers_def toLowerCase_def toLowerCaseChar_def)
  have "parseExpiryToSeconds ''9007199254740993s'' = Finite 9007199254740992"
    by (simp add: parseExpiryToSeconds_def e parseInt10_def v r numberTimes_def x m)
  then show ?thesis using v by simp
qed

text \<open>
  C9, amended: an input made of one or more ASCII digits followed by exactly one unit
  letter (\<open>s\<close>, \<open>m\<close>, \<open>h\<close>, \<open>d\<close>, \<open>w\<close>, in either case) parses to the double product of
  the double nearest to its decimal value and the multiplier of the unit (1, 60, 3600,
  86400, 604800); this is exactly the decimal value times the multiplier whenever that
  product is at most \<open>2^53\<close>. Every other input parses to the default 604800, seven days
  in seconds.
\<close>

theorem parseExpiryToSeconds_units:
  "(\<forall>ds u. ds \<noteq> [] \<and> (\<forall>c\<in>set ds. isDigit c) \<and> u \<in> set ''smhdwSMHDW'' \<longrightarrow>
      (let m = (if u = CHR ''s'' \<or> u = CHR ''S'' then 1
                else if u = CHR ''m'' \<or> u = CHR ''M'' then 60
                else if u = CHR ''h'' \<or> u = CHR ''H'' then 3600
                else if u = CHR ''d'' \<or> u = CHR ''D'' then 86400
                else 604800)
       in parseExpiryToSeconds (ds @ [u]) = numberTimes (roundToDouble (decimalValue ds)) m
          \<and> (decimalValue ds * m \<le> 2 ^ 53 \<longrightarrow>
               parseExpiryToSeconds (ds @ [u]) = Finite (decimalValue ds * m))))
   \<and> (\<forall>expiry.
        \<not> (\<exists>ds u. expiry = ds @ [u] \<and> ds \<noteq> [] \<and> (\<forall>c\<in>set ds. isDigit c) \<and> u \<in> set ''smhdwSMHDW'') \<longrightarrow>
        parseExpiryToSeconds expiry = Finite 604800)"
proof (intro conjI allI impI)
  fix ds u
  assume a: "ds \<noteq> [] \<and> (\<forall>c\<in>set ds. isDigit c) \<and> u \<in> set ''smhdwSMHDW''"
  define m :: nat where "m = (if u = CHR ''s'' \<or> u = CHR ''S'' then 1
                else if u = CHR ''m'' \<or> u = CHR ''M'' then 60
                else if u = CHR ''h'' \<or> u = CHR ''H'' then 3600
                else if u = CHR ''d'' \<or> u = CHR ''D'' then 86400
                else 604800)"
  have pos: "0 < m" by (simp add: m_def)
  from a have u: "isUnitLetter u" by (simp add: isUnitLetter_def)
  have "expiryRegexExec (ds @ [u]) = Some (ds, [u])"
    using a u by (intro expiryRegexExec_match) auto
  then have p: "parseExpiryToSeconds (ds @ [u]) = numberTimes (roundToDouble (decimalValue ds)) m"
    using unit_mult[OF u] by (simp add: parseExpiryToSeconds_def parseInt10_def m_def)
  have "parseExpiryToSeconds (ds @ [u]) = numberTimes (roundToDouble (decimalValue ds)) m
          \<and> (decimalValue ds * m \<le> 2 ^ 53 \<longrightarrow>
               parseExpiryToSeconds (ds @ [u]) = Finite (decimalValue ds * m))"
    using p numberTimes_exact[OF pos, of "decimalValue ds"] by simp
  then show "let m = (if u = CHR ''s'' \<or> u = CHR ''S'' then 1
                else if u = CHR ''m'' \<or> u = CHR ''M'' then 60
                else if u = CHR ''h'' \<or> u = CHR ''H'' then 3600
                else if u = CHR ''d'' \<or> u = CHR ''D'' then 86400
                else 604800)
       in parseExpiryToSeconds (ds @ [u]) = numberTimes (roundToDouble (decimalValue ds)) m
          \<and> (decimalValue ds * m \<le> 2 ^ 53 \<longrightarrow>
               parseExpiryToSeconds (ds @ [u]) = Finite (decimalValue ds * m))"
    unfolding Let_def m_def .
next
  fix expiry
  assume n: "\<not> (\<exists>ds u. expiry = ds @ [u] \<and> ds \<noteq> [] \<and> (\<forall>c\<in>set ds. isDigit c) \<and> u \<in> set ''smhdwSMHDW'')"
  have "expiryRegexExec expiry = None"
  proof (cases "expiryRegexExec expiry")
    case None then show ?thesis .
  next
    case (Some p)
    obtain g1 g2 where "p = (g1, g2)" by (cases p)
    with Some expiryRegexExec_Some[of expiry g1 g2] n show ?thesis
      by (auto simp: isUnitLetter_def)
  qed
  then show "parseExpiryToSeconds expiry = Finite 604800"
    by (simp add: parseExpiryToSeconds_def DEFAULT_TOKEN_EXPIRY_SECONDS_def)
qed

theorem parseExpiryToSeconds_units_witness:
  "parseExpiryToSeconds ''12H'' = Finite (12 * 3600)
   \<and> parseExpiryToSeconds ''7d'' = Finite 604800
   \<and> parseExpiryToSeconds ''9007199254740995s'' = Finite 9007199254740996
   \<and> parseExpiryToSeconds ''-5d'' = Finite 604800
   \<and> parseExpiryToSeconds ''soon'' = Finite 604800
   \<and> parseExpiryToSeconds [] = Finite 604800"
proof -
  note u = parseExpiryToSeconds_units[THEN conjunct1, THEN spec, THEN spec, THEN mp, unfolded Let_def]
  note d = parseExpiryToSeconds_units[THEN conjunct2, rule_format]
  have v: "decimalValue ''12'' = 12" "decimalValue ''7'' = 7"
    "decimalValue ''9007199254740995'' = 9007199254740995"
    by (simp_all add: decimalValue_def digitValue_def)
  have h: "''12'' \<noteq> [] \<and> (\<forall>c\<in>set ''12''. isDigit c) \<and> CHR ''H'' \<in> set ''smhdwSMHDW''"
    "''7'' \<noteq> [] \<and> (\<forall>c\<in>set ''7''. isDigit c) \<and> CHR ''d'' \<in> set ''smhdwSMHDW''"
    "''9007199254740995'' \<noteq> [] \<and> (\<forall>c\<in>set ''9007199254740995''. isDigit c)
       \<and> CHR ''s'' \<in> set ''smhdwSMHDW''"
    by (simp_all add: isDigit_def)
  have m: "parseExpiryToSeconds ''12H'' = Finite (12 * 3600)"
    using u[OF h(1), THEN conjunct2] by (simp add: v)
  have w: "parseExpiryToSeconds ''7d'' = Finite 604800"
    using u[OF h(2), THEN conjunct2] by (simp add: v)
  have r: "roundToDouble 9007199254740995 = Finite 9007199254740996"
    "roundToDouble 9007199254740996 = Finite 9007199254740996"
    by (simp_all add: roundToDouble_def ulp.simps)
  have b: "parseExpiryToSeconds ''9007199254740995s'' = Finite 9007199254740996"
    using u[OF h(3), THEN conjunct1] by (simp add: v numberTimes_def r)
  have n1: "parseExpiryToSeconds ''-5d'' = Finite 604800"
  proof (rule d, clarify)
    fix ds u assume e: "''-5d'' = ds @ [u]" and dg: "\<forall>c\<in>set ds. isDigit c"
    from arg_cong[OF e, of butlast] have "ds = ''-5''" by simp
    with dg show False by (simp add: isDigit_def)
  qed
  have n2: "parseExpiryToSeconds ''soon'' = Finite 604800"
  proof (rule d, clarify)
    fix ds u assume e: "''soon'' = ds @ [u]" and dg: "\<forall>c\<in>set ds. isDigit c"
    from arg_cong[OF e, of butlast] have "ds = ''soo''" by simp
    with dg show False by (simp add: isDigit_def)
  qed
  have n3: "parseExpiryToSeconds [] = Finite 604800"
    by (rule d) simp
  show ?thesis
    using m w b n1 n2 n3 by simp
qed

section \<open>Properties of the revocation store and the guards\<close>

lemmas ex_defs = ex_deps_def ex_world_def ex_redis_def ex_redis_down_def ex_user_def ex_admin_def
  ex_jwtVerify_def ex_jwtDecode_def ex_tokens_def ex_payload_def ex_bcryptCompare_def
  ex_randomInt_def ex_jwtSign_def ex_jwtSignReset_def ex_world_flaky_def
  ex_reset_def ex_world_reset_def

lemmas guard_defs = authenticateUser_def authenticateUser_try_def authenticateAdmin_def
  authenticateAdmin_try_def authenticateBasicAuth_def authenticateBasicAuth_try_def
  called_def falsy_def at_def toLowerCase_def toLowerCaseChar_def
  isTokenBlacklisted_def isUserBlacklisted_def isAdminBlacklisted_def redis_get_def
  user_findUnique_id_def user_findUnique_email_def admin_findUnique_id_def
  INVALID_JWT_TOKEN_MESSAGE_def TOKEN_EXPIRED_MESSAGE_def ADMIN_SUSPENDED_MESSAGE_def

lemma called_simps [simp]: "fst (called c r) = c # fst r" "snd (called c r) = snd r"
  by (simp_all add: called_def)

lemma find_SomeD: "find P xs = Some x \<Longrightarrow> x \<in> set xs \<and> P x"
  by (induction xs) (auto split: if_splits)

lemma isTokenBlacklisted_Inr: "\<exists>b. isTokenBlacklisted r t = Inr b"
  by (cases "redis_get r (''blacklist:'' @ t)") (auto simp: isTokenBlacklisted_def)








text \<open>
  C3: the three blacklist reads never raise. Each returns \<open>true\<close> exactly when the Redis
  read of its key succeeds and finds the key, and \<open>false\<close> otherwise, in particular
  whenever the read throws.
\<close>

theorem blacklist_reads_fail_open:
  "isTokenBlacklisted r token =
     Inr (\<not> getThrows r (''blacklist:'' @ token) \<and> store r (''blacklist:'' @ token) \<noteq> None)
   \<and> isUserBlacklisted r userId =
     Inr (\<not> getThrows r (''blacklist:user:'' @ userId) \<and> store r (''blacklist:user:'' @ userId) \<noteq> None)
   \<and> isAdminBlacklisted r adminId =
     Inr (\<not> getThrows r (''blacklist:admin:'' @ adminId) \<and> store r (''blacklist:admin:'' @ adminId) \<noteq> None)"
  by (simp add: isTokenBlacklisted_def isUserBlacklisted_def isAdminBlacklisted_def redis_get_def)

theorem blacklist_reads_fail_open_witness:
  "isTokenBlacklisted ex_redis ''acc.revoked'' = Inr True
   \<and> isTokenBlacklisted ex_redis ''acc.alice'' = Inr False
   \<and> isTokenBlacklisted ex_redis_down ''acc.revoked'' = Inr False
   \<and> isUserBlacklisted ex_redis ''u9'' = Inr True
   \<and> isUserBlacklisted ex_redis_down ''u9'' = Inr False
   \<and> isAdminBlacklisted ex_redis ''a9'' = Inr True
   \<and> isAdminBlacklisted ex_redis_down ''a9'' = Inr False"
  using blacklist_reads_fail_open[of ex_redis "''acc.revoked''" "''u9''" "''a9''"]
    blacklist_reads_fail_open[of ex_redis "''acc.alice''" "''u9''" "''a9''"]
    blacklist_reads_fail_open[of ex_redis_down "''acc.revoked''" "''u9''" "''a9''"]
  by (simp add: ex_redis_def ex_redis_down_def)







lemma authenticateUser_try_fst:
  "\<exists>rest. fst (authenticateUser_try d w tok) = VerifyAsync tok (JWT_SECRET d) # rest"
  by (simp add: authenticateUser_try_def)

lemma authenticateUser_try_trace:
  "VerifyAsync t s \<in> set (fst (authenticateUser_try d w tok)) \<Longrightarrow> t = tok \<and> s = JWT_SECRET d"
  by (auto simp: authenticateUser_try_def Let_def split: sum.splits if_splits option.splits)

lemma authenticateAdmin_try_fst:
  "\<exists>rest. fst (authenticateAdmin_try d w tok) = VerifyAsync tok (JWT_SECRET d) # rest"
  by (simp add: authenticateAdmin_try_def)

lemma authenticateAdmin_try_trace:
  "VerifyAsync t s \<in> set (fst (authenticateAdmin_try d w tok)) \<Longrightarrow> t = tok \<and> s = JWT_SECRET d"
  by (auto simp: authenticateAdmin_try_def Let_def split: sum.splits if_splits option.splits)

lemma authenticateBasicAuth_trace:
  "VerifyAsync t s \<notin> set (fst (authenticateBasicAuth d w v))"
  by (auto simp: authenticateBasicAuth_def authenticateBasicAuth_try_def Let_def
      split: sum.splits if_splits option.splits)

lemma authenticateUser_order:
  assumes "VerifyAsync t s \<in> set (fst (authenticateUser d w a))"
  shows "\<exists>rest. fst (authenticateUser d w a) = IsTokenBlacklisted t # VerifyAsync t s # rest"
proof -
  from assms authenticateBasicAuth_trace
  obtain tok where f: "fst (authenticateUser d w a) = IsTokenBlacklisted tok # fst (authenticateUser_try d w tok)"
    and i: "VerifyAsync t s \<in> set (fst (authenticateUser_try d w tok))"
    by (auto simp: authenticateUser_def Let_def split: if_splits sum.splits)
  from authenticateUser_try_trace[OF i] authenticateUser_try_fst[of d w tok] f
  show ?thesis by auto
qed

lemma authenticateAdmin_order:
  assumes "VerifyAsync t s \<in> set (fst (authenticateAdmin d w a))"
  shows "\<exists>rest. fst (authenticateAdmin d w a) = IsTokenBlacklisted t # VerifyAsync t s # rest"
proof -
  from assms
  obtain tok where f: "fst (authenticateAdmin d w a) = IsTokenBlacklisted tok # fst (authenticateAdmin_try d w tok)"
    and i: "VerifyAsync t s \<in> set (fst (authenticateAdmin_try d w tok))"
    by (auto simp: authenticateAdmin_def Let_def split: if_splits sum.splits)
  from authenticateAdmin_try_trace[OF i] authenticateAdmin_try_fst[of d w tok] f
  show ?thesis by auto
qed

text \<open>
  C2: a request whose header is \<open>Bearer\<close> followed by a token that the revocation store
  reports as blacklisted is rejected by both guards with 401 \<open>Token has been revoked.\<close>,
  after that one call and without the token being verified, so whatever verification
  would have returned. Whenever a guard does verify a token, the blacklist check of that
  token is the call just before.
\<close>

theorem guards_reject_blacklisted_token:
  "(a \<noteq> [] \<and> toLowerCase (hd (split CHR '' '' a)) = ''bearer''
      \<and> at (split CHR '' '' a) 1 = Some token \<and> token \<noteq> []
      \<and> isTokenBlacklisted (redis w) token = Inr True \<longrightarrow>
      authenticateUser d w (Some a)
        = ([IsTokenBlacklisted token], Inl (UnauthorizedException ''Token has been revoked.''))
      \<and> authenticateAdmin d w (Some a)
        = ([IsTokenBlacklisted token], Inl (UnauthorizedException ''Token has been revoked.'')))
   \<and> (VerifyAsync t s \<in> set (fst (authenticateUser d w h)) \<longrightarrow>
        (\<exists>rest. fst (authenticateUser d w h) = IsTokenBlacklisted t # VerifyAsync t s # rest))
   \<and> (VerifyAsync t s \<in> set (fst (authenticateAdmin d w h)) \<longrightarrow>
        (\<exists>rest. fst (authenticateAdmin d w h) = IsTokenBlacklisted t # VerifyAsync t s # rest))"
proof (intro conjI impI)
  assume h: "a \<noteq> [] \<and> toLowerCase (hd (split CHR '' '' a)) = ''bearer''
      \<and> at (split CHR '' '' a) 1 = Some token \<and> token \<noteq> []
      \<and> isTokenBlacklisted (redis w) token = Inr True"
  then have nb: "toLowerCase (hd (split CHR '' '' a)) \<noteq> ''basic''" by simp
  show "authenticateUser d w (Some a)
        = ([IsTokenBlacklisted token], Inl (UnauthorizedException ''Token has been revoked.''))"
    using h nb by (simp add: authenticateUser_def falsy_def called_def Let_def)
  show "authenticateAdmin d w (Some a)
        = ([IsTokenBlacklisted token], Inl (UnauthorizedException ''Token has been revoked.''))"
    using h by (simp add: authenticateAdmin_def falsy_def called_def Let_def)
next
  assume "VerifyAsync t s \<in> set (fst (authenticateUser d w h))"
  then show "\<exists>rest. fst (authenticateUser d w h) = IsTokenBlacklisted t # VerifyAsync t s # rest"
    by (rule authenticateUser_order)
next
  assume "VerifyAsync t s \<in> set (fst (authenticateAdmin d w h))"
  then show "\<exists>rest. fst (authenticateAdmin d w h) = IsTokenBlacklisted t # VerifyAsync t s # rest"
    by (rule authenticateAdmin_order)
qed

theorem guards_reject_blacklisted_token_witness:
  "authenticateUser ex_deps ex_world (Some ''Bearer acc.revoked'')
     = ([IsTokenBlacklisted ''acc.revoked''], Inl (UnauthorizedException ''Token has been revoked.''))
   \<and> authenticateAdmin ex_deps ex_world (Some ''Bearer acc.revoked'')
     = ([IsTokenBlacklisted ''acc.revoked''], Inl (UnauthorizedException ''Token has been revoked.''))
   \<and> ex_jwtVerify ''acc.revoked'' ''access-secret''
     = Inr (ex_payload ''u1'' ''alice@x.io'' ''USER'' 1700000100)
   \<and> fst (authenticateUser ex_deps ex_world (Some ''Bearer acc.alice''))
     = [IsTokenBlacklisted ''acc.alice'', VerifyAsync ''acc.alice'' ''access-secret'',
        IsUserBlacklisted ''u1'', UserFindUniqueId ''u1'']
   \<and> fst (authenticateAdmin ex_deps ex_world (Some ''Bearer acc.root''))
     = [IsTokenBlacklisted ''acc.root'', VerifyAsync ''acc.root'' ''access-secret'',
        IsAdminBlacklisted ''a1'', AdminFindUniqueId ''a1'']"
proof -
  have h: "''Bearer acc.revoked'' \<noteq> []
      \<and> toLowerCase (hd (split CHR '' '' ''Bearer acc.revoked'')) = ''bearer''
      \<and> at (split CHR '' '' ''Bearer acc.revoked'') 1 = Some ''acc.revoked'' \<and> ''acc.revoked'' \<noteq> []
      \<and> isTokenBlacklisted (redis ex_world) ''acc.revoked'' = Inr True"
    by (simp add: guard_defs ex_defs)
  note r = guards_reject_blacklisted_token[of "''Bearer acc.revoked''" "''acc.revoked''" ex_world ex_deps,
      THEN conjunct1, THEN mp, OF h]
  have v: "ex_jwtVerify ''acc.revoked'' ''access-secret''
     = Inr (ex_payload ''u1'' ''alice@x.io'' ''USER'' 1700000100)"
    by (simp add: ex_defs)
  have u: "fst (authenticateUser ex_deps ex_world (Some ''Bearer acc.alice''))
     = [IsTokenBlacklisted ''acc.alice'', VerifyAsync ''acc.alice'' ''access-secret'',
        IsUserBlacklisted ''u1'', UserFindUniqueId ''u1'']"
    by (simp add: guard_defs ex_defs Let_def)
  have a: "fst (authenticateAdmin ex_deps ex_world (Some ''Bearer acc.root''))
     = [IsTokenBlacklisted ''acc.root'', VerifyAsync ''acc.root'' ''access-secret'',
        IsAdminBlacklisted ''a1'', AdminFindUniqueId ''a1'']"
    by (simp add: guard_defs ex_defs Let_def)
  show ?thesis using r v u a by simp
qed

lemma authenticateBasicAuth_Inl:
  "snd (authenticateBasicAuth d w v) = Inl e \<Longrightarrow> getStatus e = 401"
  by (auto simp: authenticateBasicAuth_def Let_def split: sum.splits)

lemma authenticateUser_try_Inl_status:
  "snd (case snd (authenticateUser_try d w tok) of
              Inr u \<Rightarrow> (x, Inr u)
            | Inl err \<Rightarrow>
                (x, if errName err = ''TokenExpiredError''
                then Inl (UnauthorizedException ''Token expired.'')
                else if errName err = ''JsonWebTokenError''
                then Inl (UnauthorizedException ''Malformed token.'')
                else Inl (UnauthorizedException ''Authentication failed.''))) = Inl e \<Longrightarrow> getStatus e = 401"
  by (cases "snd (authenticateUser_try d w tok)") (auto split: if_splits)

lemma authenticateUser_Inl:
  assumes "snd (authenticateUser d w h) = Inl e"
  shows "getStatus e = 401"
proof (cases "falsy h")
  case True
  with assms show ?thesis by (auto simp: authenticateUser_def)
next
  case nf: False
  define parts where "parts = split CHR '' '' (the h)"
  show ?thesis
  proof (cases "BASIC_AUTH_ENABLED d = ''true'' \<and> toLowerCase (hd parts) = ''basic''")
    case True
    with assms nf have "snd (authenticateBasicAuth d w (at parts 1)) = Inl e"
      by (simp add: authenticateUser_def Let_def parts_def)
    then show ?thesis by (rule authenticateBasicAuth_Inl)
  next
    case nbasic: False
    show ?thesis
    proof (cases "toLowerCase (hd parts) \<noteq> ''bearer'' \<or> falsy (at parts 1)")
      case True
      with assms nf nbasic show ?thesis
        by (auto simp: authenticateUser_def Let_def parts_def)
    next
      case bearer: False
      obtain b where b: "isTokenBlacklisted (redis w) (the (at parts 1)) = Inr b"
        using isTokenBlacklisted_Inr by blast
      show ?thesis
      proof (cases b)
        case True
        with assms nf nbasic bearer b show ?thesis
          by (auto simp: authenticateUser_def Let_def parts_def)
      next
        case False
        with assms nf nbasic bearer b
        have "(case snd (authenticateUser_try d w (the (at parts 1))) of
              Inr u \<Rightarrow> Inr u
            | Inl err \<Rightarrow>
                if errName err = ''TokenExpiredError''
                then Inl (UnauthorizedException ''Token expired.'')
                else if errName err = ''JsonWebTokenError''
                then Inl (UnauthorizedException ''Malformed token.'')
                else Inl (UnauthorizedException ''Authentication failed.'')) = Inl e"
          by (simp add: authenticateUser_def Let_def parts_def)
        then show ?thesis
          by (cases "snd (authenticateUser_try d w (the (at parts 1)))") (auto split: if_splits)
      qed
    qed
  qed
qed

lemma authenticateAdmin_try_verify_Inl:
  "jwtVerify d tok (JWT_SECRET d) = Inl err \<Longrightarrow> snd (authenticateAdmin_try d w tok) = Inl err"
  by (simp add: authenticateAdmin_try_def)

lemma authenticateAdmin_try_verify_Inr:
  "jwtVerify d tok (JWT_SECRET d) = Inr p \<Longrightarrow> snd (authenticateAdmin_try d w tok) = Inl err \<Longrightarrow>
     \<exists>m. err = UnauthorizedException m"
  by (auto simp: authenticateAdmin_try_def Let_def isAdminBlacklisted_def
        split: if_splits sum.splits option.splits)

lemma authenticateAdmin_Inl:
  assumes "snd (authenticateAdmin d w h) = Inl e"
  shows "if (\<exists>t err. VerifyAsync t (JWT_SECRET d) \<in> set (fst (authenticateAdmin d w h)) \<and>
               jwtVerify d t (JWT_SECRET d) = Inl err \<and> errName err = ''JsonWebTokenError'')
         then e = BadRequestException ''Invalid token'' \<and> getStatus e = 400
         else getStatus e = 401"
proof (cases "falsy h \<or> toLowerCase (hd (split CHR '' '' (the h))) \<noteq> ''bearer'' \<or> falsy (at (split CHR '' '' (the h)) 1)
     \<or> isTokenBlacklisted (redis w) (the (at (split CHR '' '' (the h)) 1)) = Inr True")
  case True
  then have r: "authenticateAdmin d w h = ([], Inl (UnauthorizedException ''Authorization header is missing or invalid''))
     \<or> authenticateAdmin d w h = ([], Inl (UnauthorizedException ''Invalid authorization type''))
     \<or> authenticateAdmin d w h = ([IsTokenBlacklisted (the (at (split CHR '' '' (the h)) 1))],
           Inl (UnauthorizedException ''Token has been revoked.''))"
    by (auto simp: authenticateAdmin_def Let_def called_def)
  with assms show ?thesis by (elim disjE) auto
next
  case False
  define tok where "tok = the (at (split CHR '' '' (the h)) 1)"
  from False isTokenBlacklisted_Inr[of "redis w" tok]
  have nb: "isTokenBlacklisted (redis w) tok = Inr False"
    by (auto simp: tok_def)
  have f: "fst (authenticateAdmin d w h) = IsTokenBlacklisted tok # fst (authenticateAdmin_try d w tok)"
    using False nb by (simp add: authenticateAdmin_def Let_def tok_def)
  have s: "snd (authenticateAdmin d w h) =
      (case snd (authenticateAdmin_try d w tok) of
         Inr a \<Rightarrow> Inr a
       | Inl err \<Rightarrow>
           if errName err = ''TokenExpiredError'' then Inl (UnauthorizedException TOKEN_EXPIRED_MESSAGE)
           else if errName err = ''JsonWebTokenError'' then Inl (BadRequestException INVALID_JWT_TOKEN_MESSAGE)
           else if (case err of UnauthorizedException m \<Rightarrow> True | _ \<Rightarrow> False) then Inl err
           else Inl (UnauthorizedException ''Authentication failed''))"
    using False nb by (simp add: authenticateAdmin_def Let_def tok_def)
  have vin: "VerifyAsync tok (JWT_SECRET d) \<in> set (fst (authenticateAdmin d w h))"
    using authenticateAdmin_try_fst[of d w tok] by (auto simp: f)
  have vonly: "t = tok" if "VerifyAsync t (JWT_SECRET d) \<in> set (fst (authenticateAdmin d w h))" for t
  proof -
    from that have "VerifyAsync t (JWT_SECRET d) \<in> set (fst (authenticateAdmin_try d w tok))"
      by (simp add: f)
    then show ?thesis by (simp add: authenticateAdmin_try_trace)
  qed
  have m: "(\<exists>t err. VerifyAsync t (JWT_SECRET d) \<in> set (fst (authenticateAdmin d w h)) \<and>
               jwtVerify d t (JWT_SECRET d) = Inl err \<and> errName err = ''JsonWebTokenError'')
        \<longleftrightarrow> (\<exists>err. jwtVerify d tok (JWT_SECRET d) = Inl err \<and> errName err = ''JsonWebTokenError'')"
    using vin vonly by blast
  show ?thesis
  proof (cases "jwtVerify d tok (JWT_SECRET d)")
    case (Inl err)
    from authenticateAdmin_try_verify_Inl[OF Inl] have "snd (authenticateAdmin_try d w tok) = Inl err" .
    with assms s Inl m show ?thesis
      by (cases err) (auto simp: INVALID_JWT_TOKEN_MESSAGE_def split: if_splits)
  next
    case (Inr p)
    from Inr m have nm: "\<not> (\<exists>t err. VerifyAsync t (JWT_SECRET d) \<in> set (fst (authenticateAdmin d w h)) \<and>
               jwtVerify d t (JWT_SECRET d) = Inl err \<and> errName err = ''JsonWebTokenError'')" by simp
    from assms s obtain err where e: "snd (authenticateAdmin_try d w tok) = Inl err"
      by (cases "snd (authenticateAdmin_try d w tok)") auto
    from authenticateAdmin_try_verify_Inr[OF Inr e] obtain msg where "err = UnauthorizedException msg" by blast
    with assms s e have "getStatus e = 401" by auto
    with nm show ?thesis by simp
  qed
qed

text \<open>
  C7: every rejection by the user guard is surfaced as a 401. So is every rejection by
  the admin guard but one, where the code departs from the claim: a token whose
  verification throws \<open>JsonWebTokenError\<close> (a malformed token) is answered with a
  \<open>BadRequestException\<close>, HTTP 400, message \<open>Invalid token\<close>.
\<close>

theorem guard_rejection_status:
  "(snd (authenticateUser d w h) = Inl e \<longrightarrow> getStatus e = 401)
   \<and> (snd (authenticateAdmin d w h) = Inl e' \<longrightarrow>
        (if (\<exists>t err. VerifyAsync t (JWT_SECRET d) \<in> set (fst (authenticateAdmin d w h)) \<and>
               jwtVerify d t (JWT_SECRET d) = Inl err \<and> errName err = ''JsonWebTokenError'')
         then e' = BadRequestException ''Invalid token'' \<and> getStatus e' = 400
         else getStatus e' = 401))"
  using authenticateUser_Inl[of d w h e] authenticateAdmin_Inl[of d w h e'] by blast

theorem guard_rejection_status_witness:
  "snd (authenticateUser ex_deps ex_world (Some ''Bearer garbage''))
     = Inl (UnauthorizedException ''Malformed token.'')
   \<and> getStatus (UnauthorizedException ''Malformed token.'') = 401
   \<and> snd (authenticateAdmin ex_deps ex_world (Some ''Bearer acc.old''))
     = Inl (UnauthorizedException ''Token expired'')
   \<and> getStatus (UnauthorizedException ''Token expired'') = 401
   \<and> ex_jwtVerify ''garbage'' ''access-secret'' = Inl (Error ''JsonWebTokenError'' ''jwt malformed'')
   \<and> snd (authenticateAdmin ex_deps ex_world (Some ''Bearer garbage''))
     = Inl (BadRequestException ''Invalid token'')
   \<and> getStatus (BadRequestException ''Invalid token'') = 400"
proof -
  note t = guard_rejection_status[where d = ex_deps and w = ex_world]
  have u: "snd (authenticateUser ex_deps ex_world (Some ''Bearer garbage''))
     = Inl (UnauthorizedException ''Malformed token.'')"
    by (simp add: guard_defs ex_defs Let_def)
  have a: "snd (authenticateAdmin ex_deps ex_world (Some ''Bearer acc.old''))
     = Inl (UnauthorizedException ''Token expired'')"
    by (simp add: guard_defs ex_defs Let_def)
  have g: "snd (authenticateAdmin ex_deps ex_world (Some ''Bearer garbage''))
     = Inl (BadRequestException ''Invalid token'')"
    by (simp add: guard_defs ex_defs Let_def)
  have v: "ex_jwtVerify ''garbage'' ''access-secret'' = Inl (Error ''JsonWebTokenError'' ''jwt malformed'')"
    by (simp add: ex_defs)
  from t[where h = "Some ''Bearer garbage''" and e = "UnauthorizedException ''Malformed token.''",
      THEN conjunct1, THEN mp, OF u]
  have 1: "getStatus (UnauthorizedException ''Malformed token.'') = 401" .
  from t[where h = "Some ''Bearer acc.old''" and e' = "UnauthorizedException ''Token expired''",
      THEN conjunct2, THEN mp, OF a]
  have 2: "getStatus (UnauthorizedException ''Token expired'') = 401"
    by (simp split: if_splits)
  from t[where h = "Some ''Bearer garbage''" and e' = "BadRequestException ''Invalid token''",
      THEN conjunct2, THEN mp, OF g]
  have 3: "getStatus (BadRequestException ''Invalid token'') = 400"
    by (simp split: if_splits)
  from 1 2 3 u a g v show ?thesis by simp
qed

section \<open>Properties of token refresh and logout\<close>

text \<open>
  C4: a refresh token that is not itself blacklisted and verifies, for a subject with an
  identity-level blacklist entry, makes the body of \<open>refreshToken\<close> throw 401
  \<open>User tokens have been revoked\<close> (admin: \<open>Admin tokens have been revoked\<close>); the \<open>catch\<close>
  around the body replaces every error, this one included, so the caller receives 401
  \<open>Invalid refresh token\<close> (admin: \<open>Invalid or expired refresh token\<close>). No token pair
  is issued.
\<close>

theorem refreshToken_revocation_message_lost:
  "(isTokenBlacklisted (redis w) token = Inr False
      \<and> jwtVerify d token (JWT_REFRESH_SECRET d) = Inr payload \<and> sub payload = Some i
      \<and> isUserBlacklisted (redis w) i = Inr True \<longrightarrow>
      UserAuthService_refreshToken_try d w token
        = Inl (UnauthorizedException ''User tokens have been revoked'')
      \<and> UserAuthService_refreshToken d w token
        = Inl (UnauthorizedException ''Invalid refresh token''))
   \<and> (isTokenBlacklisted (redis w) token = Inr False
      \<and> jwtVerify d token (JWT_REFRESH_SECRET d) = Inr payload \<and> sub payload = Some i
      \<and> isAdminBlacklisted (redis w) i = Inr True \<longrightarrow>
      AdminAuthService_refreshToken_try d w token
        = Inl (UnauthorizedException ''Admin tokens have been revoked'')
      \<and> AdminAuthService_refreshToken d w token
        = Inl (UnauthorizedException ''Invalid or expired refresh token''))"
  by (simp add: UserAuthService_refreshToken_def UserAuthService_refreshToken_try_def
        AdminAuthService_refreshToken_def AdminAuthService_refreshToken_try_def subKey_def)

theorem refreshToken_revocation_message_lost_witness:
  "UserAuthService_refreshToken ex_deps ex_world ''ref.mallory''
     = Inl (UnauthorizedException ''Invalid refresh token'')
   \<and> getStatus (UnauthorizedException ''Invalid refresh token'') = 401
   \<and> AdminAuthService_refreshToken ex_deps ex_world ''ref.a9''
     = Inl (UnauthorizedException ''Invalid or expired refresh token'')"
proof -
  have u: "isTokenBlacklisted (redis ex_world) ''ref.mallory'' = Inr False
      \<and> jwtVerify ex_deps ''ref.mallory'' (JWT_REFRESH_SECRET ex_deps)
          = Inr (ex_payload ''u9'' ''mallory@x.io'' ''USER'' 1700600000)
      \<and> sub (ex_payload ''u9'' ''mallory@x.io'' ''USER'' 1700600000) = Some ''u9''
      \<and> isUserBlacklisted (redis ex_world) ''u9'' = Inr True"
    by (simp add: guard_defs ex_defs)
  have a: "isTokenBlacklisted (redis ex_world) ''ref.a9'' = Inr False
      \<and> jwtVerify ex_deps ''ref.a9'' (JWT_REFRESH_SECRET ex_deps)
          = Inr (ex_payload ''a9'' ''nine@x.io'' ''ADMIN'' 1700600000)
      \<and> sub (ex_payload ''a9'' ''nine@x.io'' ''ADMIN'' 1700600000) = Some ''a9''
      \<and> isAdminBlacklisted (redis ex_world) ''a9'' = Inr True"
    by (simp add: guard_defs ex_defs)
  from refreshToken_revocation_message_lost[THEN conjunct1, THEN mp, OF u]
       refreshToken_revocation_message_lost[THEN conjunct2, THEN mp, OF a]
  show ?thesis by simp
qed

lemma positive_None [simp]: "\<not> positive None"
  by (simp add: positive_def)

lemma blacklistToken_eq:
  "blacklistToken r token ttl =
     (if setExThrows r (''blacklist:'' @ token) then Inl (Error ''Error'' ''Redis write failed'')
      else Inr (r\<lparr>store := (store r)(''blacklist:'' @ token \<mapsto> (ttl, ''1''))\<rparr>))"
  by (simp add: blacklistToken_def redis_setEx_def)

lemma user_logout_response:
  "snd (UserAuthService_logout d w r a) = SuccessResponse ''Logout successful'' Null"
  by (simp add: UserAuthService_logout_def Let_def split: option.splits sum.splits prod.splits)

lemma admin_logout_response:
  "snd (AdminAuthService_logout d w ro a) = SuccessResponse ''Logout successful'' Null"
  by (simp add: AdminAuthService_logout_def Let_def split: option.splits sum.splits)

lemma user_logout_all:
  assumes "jwtDecode d a \<noteq> None" "jwtDecode d r \<noteq> None"
    "\<not> setExThrows (redis w) (''blacklist:'' @ a)" "\<not> setExThrows (redis w) (''blacklist:'' @ r)"
  shows "fst (UserAuthService_logout d w r a)
     = w\<lparr>redis := (redis w)\<lparr>store := written d r (written d a (store (redis w)))\<rparr>\<rparr>"
proof -
  from assms obtain pa pr where p: "jwtDecode d a = Some pa" "jwtDecode d r = Some pr" by auto
  show ?thesis
    using p assms(3,4)
    by (simp add: UserAuthService_logout_def Let_def blacklistToken_eq written_def presentedTTL_def)
qed

lemma admin_logout_all:
  assumes "jwtDecode d a \<noteq> None"
    "\<not> setExThrows (redis w) (''blacklist:'' @ a)"
    "\<not> falsy ro \<longrightarrow> \<not> setExThrows (redis w) (''blacklist:'' @ the ro)"
  shows "fst (AdminAuthService_logout d w ro a)
     = w\<lparr>redis := (redis w)\<lparr>store :=
          (if falsy ro then written d a (store (redis w))
           else written d (the ro) (written d a (store (redis w))))\<rparr>\<rparr>"
proof -
  from assms obtain pa where p: "jwtDecode d a = Some pa" by auto
  show ?thesis
    using p assms(2,3)
    by (simp add: AdminAuthService_logout_def Let_def blacklistToken_eq written_def presentedTTL_def
          split: option.splits)
qed

lemma user_logout_only:
  assumes "store (redis (fst (UserAuthService_logout d w r a))) k = Some v"
    "store (redis w) k \<noteq> Some v"
  shows "(k = ''blacklist:'' @ a \<and> positive (presentedTTL d a) \<and> v = (the (presentedTTL d a), ''1''))
       \<or> (k = ''blacklist:'' @ r \<and> positive (presentedTTL d r) \<and> v = (the (presentedTTL d r), ''1''))"
  using assms
  by (auto simp: UserAuthService_logout_def Let_def blacklistToken_eq presentedTTL_def
        split: option.splits sum.splits if_splits)

lemma admin_logout_only:
  assumes "store (redis (fst (AdminAuthService_logout d w ro a))) k = Some v"
    "store (redis w) k \<noteq> Some v"
  shows "(k = ''blacklist:'' @ a \<and> positive (presentedTTL d a) \<and> v = (the (presentedTTL d a), ''1''))
       \<or> (\<exists>r. ro = Some r \<and> r \<noteq> [] \<and> k = ''blacklist:'' @ r \<and> positive (presentedTTL d r)
              \<and> v = (the (presentedTTL d r), ''1''))"
  using assms
  by (auto simp: AdminAuthService_logout_def Let_def blacklistToken_eq presentedTTL_def falsy_def
        split: option.splits sum.splits if_splits)

lemmas logout_defs = UserAuthService_logout_def AdminAuthService_logout_def blacklistToken_def
  redis_setEx_def remainingTTL_def positive_def nowSeconds_def presentedTTL_def written_def
  SuccessResponse_def falsy_def

text \<open>
  C5, as stated, fails on the code: a presented token with a positive remaining lifetime
  is not written when the other token of the user flow does not decode, when the access
  token of the admin flow does not decode, or when the write before it threw.
\<close>

theorem logout_skips_token_with_positive_ttl:
  "presentedTTL ex_deps ''acc.alice'' = Some 100
   \<and> presentedTTL ex_deps ''ref.alice'' = Some 600000
   \<and> store (redis (fst (UserAuthService_logout ex_deps ex_world ''garbage'' ''acc.alice'')))
        ''blacklist:acc.alice'' = None
   \<and> store (redis (fst (UserAuthService_logout ex_deps ex_world_flaky ''ref.alice'' ''acc.alice'')))
        ''blacklist:ref.alice'' = None
   \<and> store (redis (fst (AdminAuthService_logout ex_deps ex_world (Some ''ref.root'') ''garbage'')))
        ''blacklist:ref.root'' = None"
  by (simp add: logout_defs ex_defs Let_def)

text \<open>
  C5, amended: every logout, of a user or an admin, returns the success envelope, also
  when decoding fails or a blacklist write throws. A key of the store changes only to
  the blacklist entry of a presented token whose remaining lifetime, \<open>max(0, exp - now)\<close>
  of its non-verifying decode, is strictly positive. When the tokens decode (user flow:
  both; admin flow: the access token) and no write throws, each presented token is
  written exactly when its remaining lifetime is strictly positive.
\<close>

theorem logout_best_effort:
  "snd (UserAuthService_logout d w r a) = SuccessResponse ''Logout successful'' Null
   \<and> snd (AdminAuthService_logout d w ro a) = SuccessResponse ''Logout successful'' Null
   \<and> (\<forall>k v. store (redis (fst (UserAuthService_logout d w r a))) k = Some v
          \<and> store (redis w) k \<noteq> Some v \<longrightarrow>
        (k = ''blacklist:'' @ a \<and> positive (presentedTTL d a)
           \<and> v = (the (presentedTTL d a), ''1''))
        \<or> (k = ''blacklist:'' @ r \<and> positive (presentedTTL d r)
           \<and> v = (the (presentedTTL d r), ''1'')))
   \<and> (\<forall>k v. store (redis (fst (AdminAuthService_logout d w ro a))) k = Some v
          \<and> store (redis w) k \<noteq> Some v \<longrightarrow>
        (k = ''blacklist:'' @ a \<and> positive (presentedTTL d a)
           \<and> v = (the (presentedTTL d a), ''1''))
        \<or> (\<exists>r. ro = Some r \<and> r \<noteq> [] \<and> k = ''blacklist:'' @ r \<and> positive (presentedTTL d r)
              \<and> v = (the (presentedTTL d r), ''1'')))
   \<and> (jwtDecode d a \<noteq> None \<and> jwtDecode d r \<noteq> None
        \<and> \<not> setExThrows (redis w) (''blacklist:'' @ a)
        \<and> \<not> setExThrows (redis w) (''blacklist:'' @ r) \<longrightarrow>
        fst (UserAuthService_logout d w r a)
          = w\<lparr>redis := (redis w)\<lparr>store := written d r (written d a (store (redis w)))\<rparr>\<rparr>)
   \<and> (jwtDecode d a \<noteq> None
        \<and> \<not> setExThrows (redis w) (''blacklist:'' @ a)
        \<and> (\<not> falsy ro \<longrightarrow> \<not> setExThrows (redis w) (''blacklist:'' @ the ro)) \<longrightarrow>
        fst (AdminAuthService_logout d w ro a)
          = w\<lparr>redis := (redis w)\<lparr>store :=
              (if falsy ro then written d a (store (redis w))
               else written d (the ro) (written d a (store (redis w))))\<rparr>\<rparr>)"
proof (intro conjI allI impI)
  show "snd (UserAuthService_logout d w r a) = SuccessResponse ''Logout successful'' Null"
    by (rule user_logout_response)
  show "snd (AdminAuthService_logout d w ro a) = SuccessResponse ''Logout successful'' Null"
    by (rule admin_logout_response)
next
  fix k v
  assume "store (redis (fst (UserAuthService_logout d w r a))) k = Some v
          \<and> store (redis w) k \<noteq> Some v"
  then show "(k = ''blacklist:'' @ a \<and> positive (presentedTTL d a)
           \<and> v = (the (presentedTTL d a), ''1''))
        \<or> (k = ''blacklist:'' @ r \<and> positive (presentedTTL d r)
           \<and> v = (the (presentedTTL d r), ''1''))"
    using user_logout_only[of d w r a k v] by blast
next
  fix k v
  assume "store (redis (fst (AdminAuthService_logout d w ro a))) k = Some v
          \<and> store (redis w) k \<noteq> Some v"
  then show "(k = ''blacklist:'' @ a \<and> positive (presentedTTL d a)
           \<and> v = (the (presentedTTL d a), ''1''))
        \<or> (\<exists>r. ro = Some r \<and> r \<noteq> [] \<and> k = ''blacklist:'' @ r \<and> positive (presentedTTL d r)
              \<and> v = (the (presentedTTL d r), ''1''))"
    using admin_logout_only[of d w ro a k v] by blast
next
  assume "jwtDecode d a \<noteq> None \<and> jwtDecode d r \<noteq> None
        \<and> \<not> setExThrows (redis w) (''blacklist:'' @ a)
        \<and> \<not> setExThrows (redis w) (''blacklist:'' @ r)"
  then show "fst (UserAuthService_logout d w r a)
          = w\<lparr>redis := (redis w)\<lparr>store := written d r (written d a (store (redis w)))\<rparr>\<rparr>"
    using user_logout_all[of d a r w] by blast
next
  assume "jwtDecode d a \<noteq> None
        \<and> \<not> setExThrows (redis w) (''blacklist:'' @ a)
        \<and> (\<not> falsy ro \<longrightarrow> \<not> setExThrows (redis w) (''blacklist:'' @ the ro))"
  then show "fst (AdminAuthService_logout d w ro a)
          = w\<lparr>redis := (redis w)\<lparr>store :=
              (if falsy ro then written d a (store (redis w))
               else written d (the ro) (written d a (store (redis w))))\<rparr>\<rparr>"
    using admin_logout_all[of d a w ro] by blast
qed

theorem logout_best_effort_witness:
  "snd (UserAuthService_logout ex_deps ex_world_flaky ''ref.alice'' ''acc.alice'')
     = SuccessResponse ''Logout successful'' Null
   \<and> store (redis (fst (UserAuthService_logout ex_deps ex_world ''ref.alice'' ''acc.alice'')))
        ''blacklist:acc.alice'' = Some (100, ''1'')
   \<and> store (redis (fst (UserAuthService_logout ex_deps ex_world ''ref.alice'' ''acc.alice'')))
        ''blacklist:ref.alice'' = Some (600000, ''1'')
   \<and> store (redis (fst (UserAuthService_logout ex_deps ex_world ''ref.alice'' ''acc.old'')))
        ''blacklist:acc.old'' = None
   \<and> store (redis (fst (AdminAuthService_logout ex_deps ex_world (Some ''ref.root'') ''acc.root'')))
        ''blacklist:ref.root'' = Some (600000, ''1'')"
proof -
  note t = logout_best_effort[where d = ex_deps]
  have u: "jwtDecode ex_deps ''acc.alice'' \<noteq> None \<and> jwtDecode ex_deps ''ref.alice'' \<noteq> None
        \<and> \<not> setExThrows (redis ex_world) (''blacklist:'' @ ''acc.alice'')
        \<and> \<not> setExThrows (redis ex_world) (''blacklist:'' @ ''ref.alice'')"
    by (simp add: ex_defs)
  have o: "jwtDecode ex_deps ''acc.old'' \<noteq> None \<and> jwtDecode ex_deps ''ref.alice'' \<noteq> None
        \<and> \<not> setExThrows (redis ex_world) (''blacklist:'' @ ''acc.old'')
        \<and> \<not> setExThrows (redis ex_world) (''blacklist:'' @ ''ref.alice'')"
    by (simp add: ex_defs)
  have a: "jwtDecode ex_deps ''acc.root'' \<noteq> None
        \<and> \<not> setExThrows (redis ex_world) (''blacklist:'' @ ''acc.root'')
        \<and> (\<not> falsy (Some ''ref.root'') \<longrightarrow>
             \<not> setExThrows (redis ex_world) (''blacklist:'' @ the (Some ''ref.root'')))"
    by (simp add: ex_defs)
  have 1: "snd (UserAuthService_logout ex_deps ex_world_flaky ''ref.alice'' ''acc.alice'')
     = SuccessResponse ''Logout successful'' Null"
    using t[where w = ex_world_flaky and r = "''ref.alice''" and a = "''acc.alice''"] by blast
  have 2: "fst (UserAuthService_logout ex_deps ex_world ''ref.alice'' ''acc.alice'')
     = ex_world\<lparr>redis := (redis ex_world)\<lparr>store :=
         written ex_deps ''ref.alice'' (written ex_deps ''acc.alice'' (store (redis ex_world)))\<rparr>\<rparr>"
    using t[where w = ex_world and r = "''ref.alice''" and a = "''acc.alice''"] u by blast
  have 3: "fst (UserAuthService_logout ex_deps ex_world ''ref.alice'' ''acc.old'')
     = ex_world\<lparr>redis := (redis ex_world)\<lparr>store :=
         written ex_deps ''ref.alice'' (written ex_deps ''acc.old'' (store (redis ex_world)))\<rparr>\<rparr>"
    using t[where w = ex_world and r = "''ref.alice''" and a = "''acc.old''"] o by blast
  have 4: "fst (AdminAuthService_logout ex_deps ex_world (Some ''ref.root'') ''acc.root'')
     = ex_world\<lparr>redis := (redis ex_world)\<lparr>store :=
         written ex_deps ''ref.root'' (written ex_deps ''acc.root'' (store (redis ex_world)))\<rparr>\<rparr>"
    using t[where w = ex_world and ro = "Some ''ref.root''" and a = "''acc.root''"] a
    by (simp add: falsy_def)
  have w: "written ex_deps ''ref.alice'' (written ex_deps ''acc.alice'' (store (redis ex_world)))
              ''blacklist:acc.alice'' = Some (100, ''1'')"
      "written ex_deps ''ref.alice'' (written ex_deps ''acc.alice'' (store (redis ex_world)))
              ''blacklist:ref.alice'' = Some (600000, ''1'')"
      "written ex_deps ''ref.alice'' (written ex_deps ''acc.old'' (store (redis ex_world)))
              ''blacklist:acc.old'' = None"
      "written ex_deps ''ref.root'' (written ex_deps ''acc.root'' (store (redis ex_world)))
              ''blacklist:ref.root'' = Some (600000, ''1'')"
    by (simp_all add: logout_defs ex_defs)
  show ?thesis using 1 2 3 4 w by simp
qed

section \<open>Properties of the password reset\<close>

lemma user_verify_wrong_code:
  assumes "user_findUnique_email w email = Some u" "passwordReset w (email, ''USER'') = Some pr"
    "\<not> reset_expiresAt pr < dateNow d" "reset_attempts pr < 3" "reset_code pr \<noteq> code"
  shows "UserAuthService_verifyResetCode d w email code
     = (w\<lparr>passwordReset := (passwordReset w)((email, ''USER'') \<mapsto>
            pr\<lparr>reset_attempts := reset_attempts pr + 1\<rparr>)\<rparr>,
        Inl (BadRequestException ''Invalid reset code''))"
  using assms by (simp add: UserAuthService_verifyResetCode_def MAX_PASSWORD_RESET_ATTEMPTS_def)

lemma user_verify_capped:
  assumes "user_findUnique_email w email = Some u" "passwordReset w (email, ''USER'') = Some pr"
    "\<not> reset_expiresAt pr < dateNow d" "reset_attempts pr \<ge> 3"
  shows "UserAuthService_verifyResetCode d w email code
     = (w, Inl (BadRequestException
                  ''Too many failed attempts. Please request a new reset code.''))"
  using assms by (simp add: UserAuthService_verifyResetCode_def MAX_PASSWORD_RESET_ATTEMPTS_def)

lemma sendEmail_passwordReset [simp]:
  "passwordReset (sendEmail w e s t c) = passwordReset w"
  by (simp add: sendEmail_def addEmailToQueue_def)

lemma user_forgot_fresh:
  assumes "user_findUnique_email w email = Some u"
  shows "passwordReset (fst (UserAuthService_forgotPassword d w email)) (email, ''USER'')
      = Some \<lparr>reset_code = String (randomInt d 100000 999999),
              reset_expiresAt = dateNow d + 300000, reset_attempts = 0,
              reset_verifiedAt = None\<rparr>
    \<and> snd (UserAuthService_forgotPassword d w email)
      = Inr (SuccessResponse ''Password reset code sent to your email'' Null)"
  using assms
  by (cases "passwordReset w (email, ''USER'')")
     (simp_all add: UserAuthService_forgotPassword_def Let_def sendUserPasswordResetCode_def
        SCHEMA_DEFAULT_ATTEMPTS_def otpExpiresAt_def OTP_EXPIRATION_TIME_def)

lemma admin_verify_wrong_code:
  assumes "passwordReset w (email, ''ADMIN'') = Some pr"
    "\<not> dateNow d > reset_expiresAt pr" "reset_attempts pr < 3" "reset_code pr \<noteq> code"
  shows "AdminAuthService_verifyCode d w email code
     = (w\<lparr>passwordReset := (passwordReset w)((email, ''ADMIN'') \<mapsto>
            pr\<lparr>reset_attempts := reset_attempts pr + 1\<rparr>)\<rparr>,
        Inl (BadRequestException ''Invalid reset code''))"
  using assms by (simp add: AdminAuthService_verifyCode_def MAX_PASSWORD_RESET_ATTEMPTS_def)

lemma admin_verify_capped:
  assumes "passwordReset w (email, ''ADMIN'') = Some pr"
    "\<not> dateNow d > reset_expiresAt pr" "reset_attempts pr \<ge> 3"
  shows "AdminAuthService_verifyCode d w email code
     = (w\<lparr>passwordReset := (passwordReset w)((email, ''ADMIN'') := None)\<rparr>,
        Inl (BadRequestException ''Too many failed attempts''))"
  using assms by (simp add: AdminAuthService_verifyCode_def MAX_PASSWORD_RESET_ATTEMPTS_def)

lemma admin_forgot_fresh:
  assumes "admin_findUnique_email w email = Some a"
  shows "(\<exists>pr. passwordReset (fst (AdminAuthService_forgotPassword d w email ip)) (email, ''ADMIN'')
             = Some pr \<and> reset_attempts pr = 0 \<and> reset_expiresAt pr = dateNow d + 300000
           \<and> reset_code pr = (if IS_DEVELOPMENT d then ''111111''
                               else padStart (String (randomInt d 0 10000)) 4 CHR ''0''))
    \<and> snd (AdminAuthService_forgotPassword d w email ip)
      = Inr (SuccessResponse ''Password reset code sent to email'' Null)"
  using assms
  by (cases "passwordReset w (email, ''ADMIN'')")
     (simp_all add: AdminAuthService_forgotPassword_def Let_def sendAdminPasswordResetCode_def
        SCHEMA_DEFAULT_ATTEMPTS_def otpExpiresAt_def OTP_EXPIRATION_TIME_def DEFAULT_OTP_def)

lemmas reset_defs = UserAuthService_verifyResetCode_def AdminAuthService_verifyCode_def
  UserAuthService_forgotPassword_def AdminAuthService_forgotPassword_def
  MAX_PASSWORD_RESET_ATTEMPTS_def SCHEMA_DEFAULT_ATTEMPTS_def otpExpiresAt_def
  OTP_EXPIRATION_TIME_def DEFAULT_OTP_def sendUserPasswordResetCode_def
  sendAdminPasswordResetCode_def sendEmail_def addEmailToQueue_def shouldSkipEmail_def
  user_findUnique_email_def admin_findUnique_email_def SuccessResponse_def falsy_def
  padStart_def frontendUrl_def

text \<open>
  C6, as stated, fails on the code: when the attempts have reached the cap, the user
  flow's \<open>verifyResetCode\<close> rejects with the too-many-attempts error and leaves the reset
  record in place; only the admin flow's \<open>verifyCode\<close> deletes it.
\<close>

theorem user_verifyResetCode_keeps_capped_record:
  "passwordReset ex_world_reset (''alice@x.io'', ''USER'') = Some (ex_reset ''123456'' 3)
   \<and> snd (UserAuthService_verifyResetCode ex_deps ex_world_reset ''alice@x.io'' ''000000'')
     = Inl (BadRequestException ''Too many failed attempts. Please request a new reset code.'')
   \<and> passwordReset
        (fst (UserAuthService_verifyResetCode ex_deps ex_world_reset ''alice@x.io'' ''000000''))
        (''alice@x.io'', ''USER'') = Some (ex_reset ''123456'' 3)"
  by (simp add: reset_defs ex_defs)

text \<open>
  C6, amended: with the cap at 3 and a reset record that has not expired, a wrong code
  below the cap increments \<open>attempts\<close> by one and rejects with 400 \<open>Invalid reset code\<close>, in
  both flows (the user flow for an existing user). At the cap the call rejects with the
  too-many-attempts error, whatever the code; the admin flow deletes the record, the
  user flow leaves it unchanged. In both flows a following \<open>forgotPassword\<close> for an
  existing account succeeds and leaves a record with a new code, a new expiry and
  \<open>attempts\<close> at 0.
\<close>

theorem password_reset_attempt_cap:
  "(user_findUnique_email w email = Some u \<and> passwordReset w (email, ''USER'') = Some pr
      \<and> \<not> reset_expiresAt pr < dateNow d \<longrightarrow>
      (reset_attempts pr < 3 \<and> reset_code pr \<noteq> code \<longrightarrow>
         UserAuthService_verifyResetCode d w email code
           = (w\<lparr>passwordReset := (passwordReset w)((email, ''USER'') \<mapsto>
                  pr\<lparr>reset_attempts := reset_attempts pr + 1\<rparr>)\<rparr>,
              Inl (BadRequestException ''Invalid reset code'')))
      \<and> (3 \<le> reset_attempts pr \<longrightarrow>
         UserAuthService_verifyResetCode d w email code
           = (w, Inl (BadRequestException
                        ''Too many failed attempts. Please request a new reset code.''))))
   \<and> (passwordReset w (email, ''ADMIN'') = Some pr \<and> \<not> dateNow d > reset_expiresAt pr \<longrightarrow>
      (reset_attempts pr < 3 \<and> reset_code pr \<noteq> code \<longrightarrow>
         AdminAuthService_verifyCode d w email code
           = (w\<lparr>passwordReset := (passwordReset w)((email, ''ADMIN'') \<mapsto>
                  pr\<lparr>reset_attempts := reset_attempts pr + 1\<rparr>)\<rparr>,
              Inl (BadRequestException ''Invalid reset code'')))
      \<and> (3 \<le> reset_attempts pr \<longrightarrow>
         AdminAuthService_verifyCode d w email code
           = (w\<lparr>passwordReset := (passwordReset w)((email, ''ADMIN'') := None)\<rparr>,
              Inl (BadRequestException ''Too many failed attempts''))))
   \<and> (user_findUnique_email w email = Some u \<longrightarrow>
        passwordReset (fst (UserAuthService_forgotPassword d w email)) (email, ''USER'')
          = Some \<lparr>reset_code = String (randomInt d 100000 999999),
                  reset_expiresAt = dateNow d + 300000, reset_attempts = 0,
                  reset_verifiedAt = None\<rparr>
        \<and> snd (UserAuthService_forgotPassword d w email)
          = Inr (SuccessResponse ''Password reset code sent to your email'' Null))
   \<and> (admin_findUnique_email w email = Some a \<longrightarrow>
        (\<exists>fresh. passwordReset (fst (AdminAuthService_forgotPassword d w email ip))
                    (email, ''ADMIN'') = Some fresh
           \<and> reset_attempts fresh = 0 \<and> reset_expiresAt fresh = dateNow d + 300000
           \<and> reset_code fresh = (if IS_DEVELOPMENT d then ''111111''
                                  else padStart (String (randomInt d 0 10000)) 4 CHR ''0''))
        \<and> snd (AdminAuthService_forgotPassword d w email ip)
          = Inr (SuccessResponse ''Password reset code sent to email'' Null))"
  using user_verify_wrong_code[of w email u pr d code] user_verify_capped[of w email u pr d code]
    admin_verify_wrong_code[of w email pr d code] admin_verify_capped[of w email pr d code]
    user_forgot_fresh[of w email u d] admin_forgot_fresh[of w email a d ip]
  by blast

theorem password_reset_attempt_cap_witness:
  "passwordReset
      (fst (UserAuthService_verifyResetCode ex_deps ex_world_reset ''carol@x.io'' ''000000''))
      (''carol@x.io'', ''USER'') = Some (ex_reset ''654321'' 2)
   \<and> snd (UserAuthService_verifyResetCode ex_deps ex_world_reset ''carol@x.io'' ''000000'')
      = Inl (BadRequestException ''Invalid reset code'')
   \<and> UserAuthService_verifyResetCode ex_deps ex_world_reset ''alice@x.io'' ''123456''
      = (ex_world_reset,
         Inl (BadRequestException ''Too many failed attempts. Please request a new reset code.''))
   \<and> passwordReset
        (fst (UserAuthService_forgotPassword ex_deps ex_world_reset ''alice@x.io''))
        (''alice@x.io'', ''USER'')
      = Some \<lparr>reset_code = ''123456'', reset_expiresAt = 1700000300000, reset_attempts = 0,
              reset_verifiedAt = None\<rparr>
   \<and> passwordReset (fst (AdminAuthService_verifyCode ex_deps ex_world_reset ''nine@x.io'' ''0000''))
        (''nine@x.io'', ''ADMIN'') = Some (ex_reset ''4321'' 3)
   \<and> passwordReset (fst (AdminAuthService_verifyCode ex_deps ex_world_reset ''root@x.io'' ''1234''))
        (''root@x.io'', ''ADMIN'') = None
   \<and> snd (AdminAuthService_verifyCode ex_deps ex_world_reset ''root@x.io'' ''1234'')
      = Inl (BadRequestException ''Too many failed attempts'')
   \<and> passwordReset
        (fst (AdminAuthService_forgotPassword ex_deps
               (fst (AdminAuthService_verifyCode ex_deps ex_world_reset ''root@x.io'' ''1234''))
               ''root@x.io'' None))
        (''root@x.io'', ''ADMIN'')
      = Some \<lparr>reset_code = ''3456'', reset_expiresAt = 1700000300000, reset_attempts = 0,
              reset_verifiedAt = None\<rparr>"
proof -
  note t = password_reset_attempt_cap[where d = ex_deps and w = ex_world_reset]
  have carol: "user_findUnique_email ex_world_reset ''carol@x.io''
        = Some (ex_user ''u3'' ''carol@x.io'' ''ACTIVE'' False False)
      \<and> passwordReset ex_world_reset (''carol@x.io'', ''USER'') = Some (ex_reset ''654321'' 1)
      \<and> \<not> reset_expiresAt (ex_reset ''654321'' 1) < dateNow ex_deps"
    by (simp add: ex_defs user_findUnique_email_def)
  have carol2: "reset_attempts (ex_reset ''654321'' 1) < 3 \<and> reset_code (ex_reset ''654321'' 1) \<noteq> ''000000''"
    by (simp add: ex_defs)
  have alice: "user_findUnique_email ex_world_reset ''alice@x.io''
        = Some (ex_user ''u1'' ''alice@x.io'' ''ACTIVE'' False True)
      \<and> passwordReset ex_world_reset (''alice@x.io'', ''USER'') = Some (ex_reset ''123456'' 3)
      \<and> \<not> reset_expiresAt (ex_reset ''123456'' 3) < dateNow ex_deps"
    by (simp add: ex_defs user_findUnique_email_def)
  have alice2: "3 \<le> reset_attempts (ex_reset ''123456'' 3)"
    by (simp add: ex_defs)
  have nine: "passwordReset ex_world_reset (''nine@x.io'', ''ADMIN'') = Some (ex_reset ''4321'' 2)
      \<and> \<not> dateNow ex_deps > reset_expiresAt (ex_reset ''4321'' 2)"
    by (simp add: ex_defs)
  have nine2: "reset_attempts (ex_reset ''4321'' 2) < 3 \<and> reset_code (ex_reset ''4321'' 2) \<noteq> ''0000''"
    by (simp add: ex_defs)
  have root: "passwordReset ex_world_reset (''root@x.io'', ''ADMIN'') = Some (ex_reset ''1234'' 3)
      \<and> \<not> dateNow ex_deps > reset_expiresAt (ex_reset ''1234'' 3)"
    by (simp add: ex_defs)
  have root2: "3 \<le> reset_attempts (ex_reset ''1234'' 3)"
    by (simp add: ex_defs)
  have 1: "UserAuthService_verifyResetCode ex_deps ex_world_reset ''carol@x.io'' ''000000''
      = (ex_world_reset\<lparr>passwordReset := (passwordReset ex_world_reset)((''carol@x.io'', ''USER'') \<mapsto>
            (ex_reset ''654321'' 1)\<lparr>reset_attempts := reset_attempts (ex_reset ''654321'' 1) + 1\<rparr>)\<rparr>,
         Inl (BadRequestException ''Invalid reset code''))"
    using t[where email = "''carol@x.io''" and code = "''000000''", THEN conjunct1, THEN mp, OF carol,
        THEN conjunct1, THEN mp, OF carol2] .
  have 2: "UserAuthService_verifyResetCode ex_deps ex_world_reset ''alice@x.io'' ''123456''
      = (ex_world_reset,
         Inl (BadRequestException ''Too many failed attempts. Please request a new reset code.''))"
    using t[where email = "''alice@x.io''" and code = "''123456''", THEN conjunct1, THEN mp, OF alice,
        THEN conjunct2, THEN mp, OF alice2] .
  have 3: "passwordReset
        (fst (UserAuthService_forgotPassword ex_deps ex_world_reset ''alice@x.io''))
        (''alice@x.io'', ''USER'')
      = Some \<lparr>reset_code = String (randomInt ex_deps 100000 999999),
              reset_expiresAt = dateNow ex_deps + 300000, reset_attempts = 0,
              reset_verifiedAt = None\<rparr>"
    using t[where email = "''alice@x.io''", THEN conjunct2, THEN conjunct2, THEN conjunct1, THEN mp,
        OF alice[THEN conjunct1], THEN conjunct1] .
  have 4: "AdminAuthService_verifyCode ex_deps ex_world_reset ''nine@x.io'' ''0000''
      = (ex_world_reset\<lparr>passwordReset := (passwordReset ex_world_reset)((''nine@x.io'', ''ADMIN'') \<mapsto>
            (ex_reset ''4321'' 2)\<lparr>reset_attempts := reset_attempts (ex_reset ''4321'' 2) + 1\<rparr>)\<rparr>,
         Inl (BadRequestException ''Invalid reset code''))"
    using t[where email = "''nine@x.io''" and code = "''0000''", THEN conjunct2, THEN conjunct1, THEN mp,
        OF nine, THEN conjunct1, THEN mp, OF nine2] .
  have 5: "AdminAuthService_verifyCode ex_deps ex_world_reset ''root@x.io'' ''1234''
      = (ex_world_reset\<lparr>passwordReset := (passwordReset ex_world_reset)((''root@x.io'', ''ADMIN'') := None)\<rparr>,
         Inl (BadRequestException ''Too many failed attempts''))"
    using t[where email = "''root@x.io''" and code = "''1234''", THEN conjunct2, THEN conjunct1, THEN mp,
        OF root, THEN conjunct2, THEN mp, OF root2] .
  have c: "String (randomInt ex_deps 100000 999999) = ''123456''"
    by (simp add: ex_defs String.simps)
  have 6: "passwordReset
        (fst (AdminAuthService_forgotPassword ex_deps
               (ex_world_reset\<lparr>passwordReset := (passwordReset ex_world_reset)((''root@x.io'', ''ADMIN'') := None)\<rparr>)
               ''root@x.io'' None))
        (''root@x.io'', ''ADMIN'')
      = Some \<lparr>reset_code = ''3456'', reset_expiresAt = 1700000300000, reset_attempts = 0,
              reset_verifiedAt = None\<rparr>"
    by (simp add: reset_defs ex_defs Let_def String.simps)
  show ?thesis
    using 1 2 3 4 5 6 c by (simp add: ex_defs)
qed

section \<open>Properties of the user login\<close>

lemma user_findUnique_email_eq:
  "user_findUnique_email w email = Some u \<Longrightarrow> user_email u = email"
  by (auto simp: user_findUnique_email_def dest: find_SomeD)

lemma login_unverified:
  assumes "user_findUnique_email w email = Some u" "\<not> user_emailVerified u"
  shows "UserAuthService_login d w email password
     = (sendEmailVerificationCode d w u,
        Inr (SuccessResponse ''Please verify your email first''
          (LoginData (None, user_email u, user_firstName u, user_lastName u, user_role u)
             (Some False) None)))"
  using assms by (simp add: UserAuthService_login_def)

lemma email_verification_overwrite:
  "(v::email_verification)\<lparr>verification_code := c, verification_expiresAt := x,
       verification_attempts := n\<rparr>
     = \<lparr>verification_code = c, verification_expiresAt = x, verification_attempts = n\<rparr>"
  by (cases v) simp

lemma sendEmailVerificationCode_eq:
  "sendEmailVerificationCode d w u
     = sendEmailVerification d
         (w\<lparr>emailVerification := (emailVerification w)((user_email u, ''SIGNUP'') \<mapsto>
              \<lparr>verification_code = String (randomInt d 100000 999999),
               verification_expiresAt = dateNow d + 300000,
               verification_attempts = 0\<rparr>)\<rparr>)
         (user_email u) (String (randomInt d 100000 999999))
         (user_firstName u @ '' '' @ user_lastName u)"
  by (cases "emailVerification w (user_email u, ''SIGNUP'')")
     (simp_all add: sendEmailVerificationCode_def Let_def SCHEMA_DEFAULT_ATTEMPTS_def
        otpExpiresAt_def OTP_EXPIRATION_TIME_def email_verification_overwrite)

lemma sendEmail_emailVerification [simp]:
  "emailVerification (sendEmail w e s t c) = emailVerification w"
  by (simp add: sendEmail_def addEmailToQueue_def)

lemma shouldSkipEmail_found:
  "user_findUnique_email w email = Some u \<Longrightarrow> users w' = users w \<Longrightarrow>
     shouldSkipEmail w' email = (user_isDeleted u \<or> user_status u = ''DELETED'')"
  by (simp add: shouldSkipEmail_def user_findUnique_email_def)

lemma login_unverified_queue:
  assumes "user_findUnique_email w email = Some u" "\<not> user_emailVerified u"
  shows "emailQueue (fst (UserAuthService_login d w email password))
     = (if user_isDeleted u \<or> user_status u = ''DELETED'' \<or> emailQueueThrows w then emailQueue w
        else emailQueue w @
          [\<lparr>job_recipient = email, job_subject = ''Verify Your Email Address'',
            job_template = ''email-verification'',
            job_context =
              [(''code'', String (randomInt d 100000 999999)),
               (''userName'', user_firstName u @ '' '' @ user_lastName u),
               (''expiryMinutes'', ''5''), (''frontendUrl'', frontendUrl d)]\<rparr>])"
proof -
  have e: "user_email u = email" using assms(1) by (rule user_findUnique_email_eq)
  have s: "shouldSkipEmail
       (w\<lparr>emailVerification := (emailVerification w)((email, ''SIGNUP'') \<mapsto>
                \<lparr>verification_code = String (randomInt d 100000 999999),
                 verification_expiresAt = dateNow d + 300000,
                 verification_attempts = 0\<rparr>)\<rparr>) email
     = (user_isDeleted u \<or> user_status u = ''DELETED'')"
    using assms(1) by (rule shouldSkipEmail_found) simp
  have five: "String OTP_EXPIRATION_TIME = ''5''"
    by (simp add: OTP_EXPIRATION_TIME_def String.simps)
  show ?thesis
    using e s five
    by (simp add: login_unverified[OF assms] sendEmailVerificationCode_eq sendEmailVerification_def
          sendEmail_def addEmailToQueue_def)
qed

lemma login_Inl_verified:
  assumes "user_findUnique_email w email = Some u" "snd (UserAuthService_login d w email password) = Inl e"
  shows "user_emailVerified u"
proof (rule ccontr)
  assume "\<not> user_emailVerified u"
  from login_unverified[OF assms(1) this, of d password] assms(2) show False by simp
qed

lemmas login_defs = UserAuthService_login_def sendEmailVerificationCode_def
  sendEmailVerification_def sendEmail_def addEmailToQueue_def shouldSkipEmail_def
  user_findUnique_email_def SuccessResponse_def generateTokens_def falsy_def
  SCHEMA_DEFAULT_ATTEMPTS_def otpExpiresAt_def OTP_EXPIRATION_TIME_def frontendUrl_def

text \<open>
  C8: when the user found by email has \<open>emailVerified = false\<close>, \<open>login\<close> does not reject.
  It returns the success envelope with \<open>emailVerified: false\<close> and \<open>tokens: null\<close>; it
  has upserted the verification record of that email with a newly drawn code, a new
  expiry and no attempts; and it has called the email service's \<open>sendEmailVerification\<close>
  with the email, that code and the user's name, on the state after the upsert.
\<close>

theorem login_unverified_sends_code:
  "user_findUnique_email w email = Some u \<and> \<not> user_emailVerified u \<longrightarrow>
     snd (UserAuthService_login d w email password)
       = Inr (SuccessResponse ''Please verify your email first''
           (LoginData (None, user_email u, user_firstName u, user_lastName u, user_role u)
              (Some False) None))
     \<and> fst (UserAuthService_login d w email password)
       = sendEmailVerification d
           (w\<lparr>emailVerification := (emailVerification w)((email, ''SIGNUP'') \<mapsto>
                \<lparr>verification_code = String (randomInt d 100000 999999),
                 verification_expiresAt = dateNow d + 300000,
                 verification_attempts = 0\<rparr>)\<rparr>)
           email (String (randomInt d 100000 999999))
           (user_firstName u @ '' '' @ user_lastName u)
     \<and> emailVerification (fst (UserAuthService_login d w email password)) (email, ''SIGNUP'')
       = Some \<lparr>verification_code = String (randomInt d 100000 999999),
               verification_expiresAt = dateNow d + 300000,
               verification_attempts = 0\<rparr>"
proof (intro impI)
  assume h: "user_findUnique_email w email = Some u \<and> \<not> user_emailVerified u"
  then have e: "user_email u = email" using user_findUnique_email_eq by blast
  from h have l: "UserAuthService_login d w email password
     = (sendEmailVerificationCode d w u,
        Inr (SuccessResponse ''Please verify your email first''
          (LoginData (None, user_email u, user_firstName u, user_lastName u, user_role u)
             (Some False) None)))"
    by (simp add: login_unverified)
  show "snd (UserAuthService_login d w email password)
       = Inr (SuccessResponse ''Please verify your email first''
           (LoginData (None, user_email u, user_firstName u, user_lastName u, user_role u)
              (Some False) None))
     \<and> fst (UserAuthService_login d w email password)
       = sendEmailVerification d
           (w\<lparr>emailVerification := (emailVerification w)((email, ''SIGNUP'') \<mapsto>
                \<lparr>verification_code = String (randomInt d 100000 999999),
                 verification_expiresAt = dateNow d + 300000,
                 verification_attempts = 0\<rparr>)\<rparr>)
           email (String (randomInt d 100000 999999))
           (user_firstName u @ '' '' @ user_lastName u)
     \<and> emailVerification (fst (UserAuthService_login d w email password)) (email, ''SIGNUP'')
       = Some \<lparr>verification_code = String (randomInt d 100000 999999),
               verification_expiresAt = dateNow d + 300000,
               verification_attempts = 0\<rparr>"
    using e by (simp add: l sendEmailVerificationCode_eq sendEmailVerification_def)
qed

theorem login_unverified_sends_code_witness:
  "snd (UserAuthService_login ex_deps ex_world ''carol@x.io'' ''not-her-password'')
     = Inr (SuccessResponse ''Please verify your email first''
         (LoginData (None, ''carol@x.io'', ''F'', ''L'', ''USER'') (Some False) None))
   \<and> emailVerification
        (fst (UserAuthService_login ex_deps ex_world ''carol@x.io'' ''not-her-password''))
        (''carol@x.io'', ''SIGNUP'')
     = Some \<lparr>verification_code = ''123456'', verification_expiresAt = 1700000300000,
             verification_attempts = 0\<rparr>
   \<and> emailQueue (fst (UserAuthService_login ex_deps ex_world ''carol@x.io'' ''not-her-password''))
     = [\<lparr>job_recipient = ''carol@x.io'', job_subject = ''Verify Your Email Address'',
         job_template = ''email-verification'',
         job_context = [(''code'', ''123456''), (''userName'', ''F L''),
                        (''expiryMinutes'', ''5''),
                        (''frontendUrl'', ''http://localhost:3000'')]\<rparr>]"
proof -
  have h: "user_findUnique_email ex_world ''carol@x.io''
        = Some (ex_user ''u3'' ''carol@x.io'' ''ACTIVE'' False False)
      \<and> \<not> user_emailVerified (ex_user ''u3'' ''carol@x.io'' ''ACTIVE'' False False)"
    by (simp add: ex_defs user_findUnique_email_def)
  note t = login_unverified_sends_code[where d = ex_deps and password = "''not-her-password''",
      THEN mp, OF h]
  have c: "String (randomInt ex_deps 100000 999999) = ''123456''"
    by (simp add: ex_defs String.simps)
  have q: "emailQueue (fst (UserAuthService_login ex_deps ex_world ''carol@x.io'' ''not-her-password''))
     = [\<lparr>job_recipient = ''carol@x.io'', job_subject = ''Verify Your Email Address'',
         job_template = ''email-verification'',
         job_context = [(''code'', ''123456''), (''userName'', ''F L''),
                        (''expiryMinutes'', ''5''),
                        (''frontendUrl'', ''http://localhost:3000'')]\<rparr>]"
    by (simp add: login_defs ex_defs Let_def String.simps)
  show ?thesis
    using t[THEN conjunct1] t[THEN conjunct2, THEN conjunct2] c q
    by (simp add: ex_defs)
qed

text \<open>
  C10, as stated, fails on the code: for a deleted account with an unverified email,
  \<open>login\<close> returns the verification response, but the email service skips deleted
  recipients (\<open>shouldSkipEmail\<close>), so no code email is sent.
\<close>

theorem login_deleted_unverified_sends_no_email:
  "user_findUnique_email ex_world ''bob@x.io'' = Some (ex_user ''u2'' ''bob@x.io'' ''ACTIVE'' True False)
   \<and> user_isDeleted (ex_user ''u2'' ''bob@x.io'' ''ACTIVE'' True False)
   \<and> snd (UserAuthService_login ex_deps ex_world ''bob@x.io'' ''pw-u2'')
     = Inr (SuccessResponse ''Please verify your email first''
         (LoginData (None, ''bob@x.io'', ''F'', ''L'', ''USER'') (Some False) None))
   \<and> emailQueue ex_world = []
   \<and> emailQueue (fst (UserAuthService_login ex_deps ex_world ''bob@x.io'' ''pw-u2'')) = []"
  by (simp add: login_defs ex_defs Let_def)

text \<open>
  C10, amended: the check of \<open>emailVerified\<close> comes before the checks of \<open>isDeleted\<close> and
  \<open>status\<close> and before the password comparison. For every user record with
  \<open>emailVerified = false\<close>, \<open>login\<close> returns the verification response (\<open>tokens: null\<close>)
  whatever the password and the status; the code email is queued exactly when the
  account is not deleted (\<open>isDeleted\<close> false and \<open>status\<close> not \<open>DELETED\<close>) and the queue
  accepts the job. Every rejection of a found user is reached only with
  \<open>emailVerified = true\<close>.
\<close>

theorem login_checks_email_verification_first:
  "(user_findUnique_email w email = Some u \<and> \<not> user_emailVerified u \<longrightarrow>
      snd (UserAuthService_login d w email password)
        = Inr (SuccessResponse ''Please verify your email first''
            (LoginData (None, user_email u, user_firstName u, user_lastName u, user_role u)
               (Some False) None))
      \<and> emailQueue (fst (UserAuthService_login d w email password))
        = (if user_isDeleted u \<or> user_status u = ''DELETED'' \<or> emailQueueThrows w
           then emailQueue w
           else emailQueue w @
             [\<lparr>job_recipient = email, job_subject = ''Verify Your Email Address'',
               job_template = ''email-verification'',
               job_context =
                 [(''code'', String (randomInt d 100000 999999)),
                  (''userName'', user_firstName u @ '' '' @ user_lastName u),
                  (''expiryMinutes'', ''5''), (''frontendUrl'', frontendUrl d)]\<rparr>]))
   \<and> (user_findUnique_email w email = Some u
        \<and> snd (UserAuthService_login d w email password) = Inl e \<longrightarrow>
      user_emailVerified u)"
proof (intro conjI impI)
  assume h: "user_findUnique_email w email = Some u \<and> \<not> user_emailVerified u"
  then show "snd (UserAuthService_login d w email password)
        = Inr (SuccessResponse ''Please verify your email first''
            (LoginData (None, user_email u, user_firstName u, user_lastName u, user_role u)
               (Some False) None))"
    by (simp add: login_unverified)
  from h show "emailQueue (fst (UserAuthService_login d w email password))
        = (if user_isDeleted u \<or> user_status u = ''DELETED'' \<or> emailQueueThrows w
           then emailQueue w
           else emailQueue w @
             [\<lparr>job_recipient = email, job_subject = ''Verify Your Email Address'',
               job_template = ''email-verification'',
               job_context =
                 [(''code'', String (randomInt d 100000 999999)),
                  (''userName'', user_firstName u @ '' '' @ user_lastName u),
                  (''expiryMinutes'', ''5''), (''frontendUrl'', frontendUrl d)]\<rparr>])"
    using login_unverified_queue[of w email u d password] by blast
next
  assume "user_findUnique_email w email = Some u
        \<and> snd (UserAuthService_login d w email password) = Inl e"
  then show "user_emailVerified u"
    using login_Inl_verified[of w email u d password e] by blast
qed

theorem login_checks_email_verification_first_witness:
  "snd (UserAuthService_login ex_deps ex_world ''carol@x.io'' ''not-her-password'')
     = Inr (SuccessResponse ''Please verify your email first''
         (LoginData (None, ''carol@x.io'', ''F'', ''L'', ''USER'') (Some False) None))
   \<and> length (emailQueue (fst (UserAuthService_login ex_deps ex_world ''carol@x.io'' ''not-her-password''))) = 1
   \<and> snd (UserAuthService_login ex_deps ex_world ''alice@x.io'' ''not-her-password'')
     = Inl (UnauthorizedException ''Invalid email or password'')
   \<and> user_emailVerified (ex_user ''u1'' ''alice@x.io'' ''ACTIVE'' False True)"
proof -
  have h: "user_findUnique_email ex_world ''carol@x.io''
        = Some (ex_user ''u3'' ''carol@x.io'' ''ACTIVE'' False False)
      \<and> \<not> user_emailVerified (ex_user ''u3'' ''carol@x.io'' ''ACTIVE'' False False)"
    by (simp add: ex_defs user_findUnique_email_def)
  note t = login_checks_email_verification_first[where d = ex_deps and w = ex_world]
  note c = t[where password = "''not-her-password''", THEN conjunct1, THEN mp, OF h]
  have a: "snd (UserAuthService_login ex_deps ex_world ''alice@x.io'' ''not-her-password'')
     = Inl (UnauthorizedException ''Invalid email or password'')"
    by (simp add: login_defs ex_defs)
  have f: "user_findUnique_email ex_world ''alice@x.io''
        = Some (ex_user ''u1'' ''alice@x.io'' ''ACTIVE'' False True)
      \<and> snd (UserAuthService_login ex_deps ex_world ''alice@x.io'' ''not-her-password'')
        = Inl (UnauthorizedException ''Invalid email or password'')"
    using a by (simp add: ex_defs user_findUnique_email_def)
  note v = t[where password = "''not-her-password''", THEN conjunct2, THEN mp, OF f]
  show ?thesis
    using c[THEN conjunct1] c[THEN conjunct2] a v by (simp add: ex_defs)
qed

end
